theory Spec2Isabelle
  imports Complex_Main "HOL-Library.Word"
begin

section \<open>The package freshness pre-commit check (check-package-freshness.js)\<close>

text \<open>
  A shallow embedding of the class \<open>PackageFreshnessChecker\<close>. JavaScript values are
  modelled as far as the checker can observe them: strings, the values \<open>JSON.parse\<close>
  returns, \<open>undefined\<close>, the Numbers \<open>parseInt\<close> returns on a run of decimal digits,
  and thrown \<open>Error\<close> objects. The two \<open>npm\<close> subprocesses and the file system are the
  environment of a run.
\<close>

subsection \<open>Strings\<close>

text \<open>
  A JavaScript string is a sequence of UTF-16 code units; \<open>length\<close>, indexing, the
  regular expression of \<open>parseVersion\<close> and \<open>Object.keys\<close> of a string all count code
  units. \<open>ascii\<close> embeds an ASCII literal of the source; the few non-ASCII characters
  of the source's literals are given by their code units.
\<close>

type_synonym code_unit = "16 word"
type_synonym jsstring = "code_unit list"

definition ascii :: "string \<Rightarrow> jsstring" where
  "ascii s = map of_char s"

definition apostrophe :: jsstring where "apostrophe = [0x27]"
definition newline :: jsstring where "newline = [0x0A]"
definition quotation_mark :: jsstring where "quotation_mark = [0x22]"
definition cross_mark :: jsstring where "cross_mark = [0x274C]"
definition warning_sign :: jsstring where "warning_sign = [0x26A0, 0xFE0F]"
definition information_sign :: jsstring where "information_sign = [0x2139, 0xFE0F]"
definition check_mark :: jsstring where "check_mark = [0x2705]"
definition lock_sign :: jsstring where "lock_sign = [0xD83D, 0xDD12]"
definition package_sign :: jsstring where "package_sign = [0xD83D, 0xDCE6]"
definition wrench_sign :: jsstring where "wrench_sign = [0xD83D, 0xDD27]"
definition no_entry_sign :: jsstring where "no_entry_sign = [0xD83D, 0xDEAB]"
definition rightwards_arrow :: jsstring where "rightwards_arrow = [0x2192]"

text \<open>\<open>\<^verbatim>\<open>${n}\<close>\<close> in a template literal, for a count \<open>n\<close>: its decimal digits.\<close>

fun string_of_nat :: "nat \<Rightarrow> jsstring" where
  "string_of_nat n =
     (if n < 10 then [of_nat (48 + n)]
      else string_of_nat (n div 10) @ [of_nat (48 + n mod 10)])"

declare string_of_nat.simps [simp del]

subsection \<open>Numbers returned by \<open>parseInt\<close>\<close>

text \<open>
  \<open>parseInt\<close> returns a Number, an IEEE 754 double. On a non-empty run of decimal
  digits it is the decimal value of the run rounded to the nearest double (ties to
  even), so it is exact below \<open>2 ^ 53\<close> and \<open>Infinity\<close> from \<open>2 ^ 1024 - 2 ^ 970\<close> on.
\<close>

datatype number = Finite nat | Infinity

fun bit_length :: "nat \<Rightarrow> nat" where
  "bit_length n = (if n = 0 then 0 else Suc (bit_length (n div 2)))"

declare bit_length.simps [simp del]

definition f64_of_nat :: "nat \<Rightarrow> number" where
  "f64_of_nat n =
     (if n < 2 ^ 53 then Finite n
      else
        let e = bit_length n - 53;
            q = n div 2 ^ e;
            r = n mod 2 ^ e;
            half = 2 ^ (e - 1);
            q' = (if half < r \<or> (r = half \<and> odd q) then q + 1 else q)
        in if 2 ^ 1024 \<le> q' * 2 ^ e then Infinity else Finite (q' * 2 ^ e))"

text \<open>The relational operator \<open>a > b\<close> on these Numbers.\<close>

fun greater :: "number \<Rightarrow> number \<Rightarrow> bool" where
  "greater (Finite a) (Finite b) = (b < a)"
| "greater Infinity (Finite b) = True"
| "greater a Infinity = False"

definition is_digit :: "code_unit \<Rightarrow> bool" where
  "is_digit c \<longleftrightarrow> 0x30 \<le> c \<and> c \<le> 0x39"

definition digit_value :: "code_unit \<Rightarrow> nat" where
  "digit_value c = unat c - 48"

definition decimal_value :: "jsstring \<Rightarrow> nat" where
  "decimal_value ds = foldl (\<lambda>acc c. 10 * acc + digit_value c) 0 ds"

text \<open>\<open>parseInt(ds)\<close> for a non-empty run of decimal digits \<open>ds\<close> (a capture group).\<close>

definition parseInt :: "jsstring \<Rightarrow> number" where
  "parseInt ds = f64_of_nat (decimal_value ds)"

subsection \<open>JSON values\<close>

text \<open>
  What \<open>JSON.parse\<close> returns. An object is the list of its own properties in the order
  \<open>Object.entries\<close> enumerates them (keys are distinct in a parsed object).
  \<open>undefined\<close>, which a property read can give, is \<open>None\<close> of \<open>jsval\<close>.
\<close>

datatype json =
    JNull
  | JBool bool
  | JNumber real
  | JString jsstring
  | JArray "json list"
  | JObject "(jsstring \<times> json) list"

type_synonym jsval = "json option"

datatype js_error = Error jsstring | SyntaxError jsstring | TypeError jsstring

fun message :: "js_error \<Rightarrow> jsstring" where
  "message (Error m) = m"
| "message (SyntaxError m) = m"
| "message (TypeError m) = m"

text \<open>
  \<open>v.name\<close> for the property names the checker reads (\<open>current\<close>, \<open>latest\<close>,
  \<open>vulnerabilities\<close>, \<open>severity\<close>): none of them is an index or inherited from a
  prototype, so only an object can have one, and reading it from \<open>null\<close> throws.
\<close>

fun get_property :: "json \<Rightarrow> string \<Rightarrow> js_error + jsval" where
  "get_property JNull name =
     Inl (TypeError (ascii ''Cannot read properties of null (reading '' @ apostrophe
                     @ ascii name @ apostrophe @ ascii '')''))"
| "get_property (JObject props) name = Inr (map_of props (ascii name))"
| "get_property v name = Inr None"

text \<open>Truthiness, as \<open>&&\<close> and \<open>!\<close> test it.\<close>

fun truthy :: "jsval \<Rightarrow> bool" where
  "truthy None = False"
| "truthy (Some JNull) = False"
| "truthy (Some (JBool b)) = b"
| "truthy (Some (JNumber x)) = (x \<noteq> 0)"
| "truthy (Some (JString s)) = (s \<noteq> [])"
| "truthy (Some (JArray xs)) = True"
| "truthy (Some (JObject props)) = True"

text \<open>
  \<open>Object.entries\<close>: the own enumerable properties. A string has one per code unit and
  an array one per element, keyed by the index; a number or a boolean has none;
  \<open>null\<close> throws.
\<close>

fun Object_entries :: "json \<Rightarrow> js_error + (jsstring \<times> json) list" where
  "Object_entries JNull = Inl (TypeError (ascii ''Cannot convert undefined or null to object''))"
| "Object_entries (JBool b) = Inr []"
| "Object_entries (JNumber x) = Inr []"
| "Object_entries (JString s) =
     Inr (zip (map string_of_nat [0..<length s]) (map (\<lambda>u. JString [u]) s))"
| "Object_entries (JArray xs) = Inr (zip (map string_of_nat [0..<length xs]) xs)"
| "Object_entries (JObject props) = Inr props"

definition Object_keys :: "json \<Rightarrow> js_error + jsstring list" where
  "Object_keys v = (case Object_entries v of Inl e \<Rightarrow> Inl e | Inr es \<Rightarrow> Inr (map fst es))"

definition Object_values :: "json \<Rightarrow> js_error + json list" where
  "Object_values v = (case Object_entries v of Inl e \<Rightarrow> Inl e | Inr es \<Rightarrow> Inr (map snd es))"

subsection \<open>Version comparator\<close>

record ParsedVersion =
  major :: number
  minor :: number
  patch :: number

text \<open>
  \<open>version.match(/^(\d+)\.(\d+)\.(\d+)/)\<close> on a string: the three capture groups, or
  \<open>None\<close> for \<open>null\<close>. Each \<open>\d+\<close> is greedy and is followed by a character
  that is not a digit, so it takes the whole run of digits.
\<close>

definition match_version :: "jsstring \<Rightarrow> (jsstring \<times> jsstring \<times> jsstring) option" where
  "match_version s =
     (let g1 = takeWhile is_digit s; r1 = dropWhile is_digit s in
      if g1 = [] then None
      else
        (case r1 of
           [] \<Rightarrow> None
         | c1 # s2 \<Rightarrow>
             if c1 \<noteq> 0x2E then None
             else
               (let g2 = takeWhile is_digit s2; r2 = dropWhile is_digit s2 in
                if g2 = [] then None
                else
                  (case r2 of
                     [] \<Rightarrow> None
                   | c2 # s3 \<Rightarrow>
                       if c2 \<noteq> 0x2E then None
                       else
                         (let g3 = takeWhile is_digit s3 in
                          if g3 = [] then None else Some (g1, g2, g3))))))"

text \<open>
  \<open>parseVersion(version)\<close>. The argument is whatever the entry holds: calling
  \<open>.match\<close> on \<open>undefined\<close> or \<open>null\<close> throws, and no other JSON value than a
  string has a callable \<open>match\<close>.
\<close>

fun parseVersion :: "jsval \<Rightarrow> js_error + ParsedVersion option" where
  "parseVersion (Some (JString version)) =
     Inr (case match_version version of
            None \<Rightarrow> None
          | Some (g1, g2, g3) \<Rightarrow>
              Some \<lparr>major = parseInt g1, minor = parseInt g2, patch = parseInt g3\<rparr>)"
| "parseVersion None =
     Inl (TypeError (ascii ''Cannot read properties of undefined (reading '' @ apostrophe
                     @ ascii ''match'' @ apostrophe @ ascii '')''))"
| "parseVersion (Some JNull) =
     Inl (TypeError (ascii ''Cannot read properties of null (reading '' @ apostrophe
                     @ ascii ''match'' @ apostrophe @ ascii '')''))"
| "parseVersion (Some v) = Inl (TypeError (ascii ''version.match is not a function''))"

datatype version_difference = Major | Minor | Patch | NoDifference | Unknown

fun difference_name :: "version_difference \<Rightarrow> jsstring" where
  "difference_name Major = ascii ''major''"
| "difference_name Minor = ascii ''minor''"
| "difference_name Patch = ascii ''patch''"
| "difference_name NoDifference = ascii ''none''"
| "difference_name Unknown = ascii ''unknown''"

definition getVersionDifference :: "jsval \<Rightarrow> jsval \<Rightarrow> js_error + version_difference" where
  "getVersionDifference current latest =
     (case parseVersion current of
        Inl e \<Rightarrow> Inl e
      | Inr cur \<Rightarrow>
          (case parseVersion latest of
             Inl e \<Rightarrow> Inl e
           | Inr lat \<Rightarrow>
               Inr (case cur of
                      None \<Rightarrow> Unknown
                    | Some c \<Rightarrow>
                        (case lat of
                           None \<Rightarrow> Unknown
                         | Some l \<Rightarrow>
                             if greater (major l) (major c) then Major
                             else if greater (minor l) (minor c) then Minor
                             else if greater (patch l) (patch c) then Patch
                             else NoDifference))))"

subsection \<open>Configuration, checker state and console\<close>

text \<open>
  The module-level \<open>CONFIG\<close>. Only the two behaviour options are read by the checker
  (the age thresholds are never used; the timeout is part of the subprocess call).
  \<open>VERBOSE\<close> is \<open>process.env.CI !== 'true'\<close>; the shipped value of
  \<open>ALLOW_NETWORK_FAILURE\<close> is \<open>true\<close>.
\<close>

record config =
  ALLOW_NETWORK_FAILURE :: bool
  VERBOSE :: bool

definition CONFIG :: "bool \<Rightarrow> config" where
  "CONFIG ci = \<lparr>ALLOW_NETWORK_FAILURE = True, VERBOSE = \<not> ci\<rparr>"

datatype stream = Stdout | Stderr

text \<open>
  The fields \<open>this.warnings\<close> and \<open>this.errors\<close> of a checker, together with the
  lines the process has written to the console so far.
\<close>

record checker =
  warnings :: "jsstring list"
  errors :: "jsstring list"
  console :: "(stream \<times> jsstring) list"

text \<open>The constructor: a checker with no findings, in a process that has printed nothing.\<close>

definition constructor :: checker where
  "constructor = \<lparr>warnings = [], errors = [], console = []\<rparr>"

definition console_log :: "jsstring \<Rightarrow> checker \<Rightarrow> checker" where
  "console_log line s = s\<lparr>console := console s @ [(Stdout, line)]\<rparr>"

definition console_error :: "jsstring \<Rightarrow> checker \<Rightarrow> checker" where
  "console_error line s = s\<lparr>console := console s @ [(Stderr, line)]\<rparr>"

datatype log_type = LogInfo | LogWarn | LogError

fun log_prefix :: "log_type \<Rightarrow> jsstring" where
  "log_prefix LogError = cross_mark"
| "log_prefix LogWarn = warning_sign"
| "log_prefix LogInfo = information_sign"

definition log_message :: "config \<Rightarrow> jsstring \<Rightarrow> log_type \<Rightarrow> checker \<Rightarrow> checker" where
  "log_message cfg msg type s =
     (if VERBOSE cfg \<or> type = LogError
      then console_log (log_prefix type @ ascii '' '' @ msg) s
      else s)"

definition push_warning :: "jsstring \<Rightarrow> checker \<Rightarrow> checker" where
  "push_warning w s = s\<lparr>warnings := warnings s @ [w]\<rparr>"

definition push_error :: "jsstring \<Rightarrow> checker \<Rightarrow> checker" where
  "push_error e s = s\<lparr>errors := errors s @ [e]\<rparr>"

subsection \<open>Environment of a run\<close>

text \<open>
  The standard output of a subprocess, as far as the checker inspects it: \<open>Blank\<close> is
  an output whose \<open>trim()\<close> is empty, \<open>Malformed m\<close> one that is not blank and on
  which \<open>JSON.parse\<close> throws a \<open>SyntaxError\<close> with message \<open>m\<close>, \<open>Wellformed v\<close>
  one that \<open>JSON.parse\<close> turns into \<open>v\<close>. \<open>execSync\<close> either throws (time-out,
  failure to spawn) or returns that output.
\<close>

datatype stdout_text = Blank | Malformed jsstring | Wellformed json

datatype exec_result = Threw jsstring | Returned stdout_text

record environment =
  package_json_exists :: bool
  npm_outdated :: exec_result
  npm_audit :: exec_result

fun trim_is_empty :: "stdout_text \<Rightarrow> bool" where
  "trim_is_empty Blank = True"
| "trim_is_empty (Malformed m) = False"
| "trim_is_empty (Wellformed v) = False"

fun JSON_parse :: "stdout_text \<Rightarrow> js_error + json" where
  "JSON_parse Blank = Inl (SyntaxError (ascii ''Unexpected end of JSON input''))"
| "JSON_parse (Malformed m) = Inl (SyntaxError m)"
| "JSON_parse (Wellformed v) = Inr v"

subsection \<open>The two queries\<close>

definition checkPackageExists :: "config \<Rightarrow> environment \<Rightarrow> checker \<Rightarrow> bool \<times> checker" where
  "checkPackageExists cfg env s =
     (if \<not> package_json_exists env
      then (False, log_message cfg
              (ascii ''No package.json found, skipping package freshness check'') LogWarn s)
      else (True, s))"

text \<open>The \<open>try\<close> block of \<open>getOutdatedPackages\<close>, then the method with its \<open>catch\<close>.\<close>

definition getOutdatedPackages_try ::
    "config \<Rightarrow> exec_result \<Rightarrow> checker \<Rightarrow> (js_error + json) \<times> checker" where
  "getOutdatedPackages_try cfg query s =
     (let s1 = log_message cfg (ascii ''Checking for outdated packages...'') LogInfo s in
      case query of
        Threw m \<Rightarrow> (Inl (Error m), s1)
      | Returned result \<Rightarrow>
          if trim_is_empty result
          then (Inr (JObject []),
                log_message cfg (ascii ''All packages are up to date! '' @ check_mark) LogInfo s1)
          else (JSON_parse result, s1))"

definition getOutdatedPackages ::
    "config \<Rightarrow> exec_result \<Rightarrow> checker \<Rightarrow> (js_error + json) \<times> checker" where
  "getOutdatedPackages cfg query s =
     (case getOutdatedPackages_try cfg query s of
        (Inr outdated, s1) \<Rightarrow> (Inr outdated, s1)
      | (Inl error, s1) \<Rightarrow>
          if ALLOW_NETWORK_FAILURE cfg
          then (Inr (JObject []),
                log_message cfg
                  (ascii ''Network timeout or registry unavailable - allowing commit'') LogWarn s1)
          else (Inl (Error (ascii ''Failed to check package versions: '' @ message error)), s1))"

text \<open>\<open>['high', 'critical'].includes(v)\<close>\<close>

definition includes_high_critical :: "jsval \<Rightarrow> bool" where
  "includes_high_critical v \<longleftrightarrow>
     v = Some (JString (ascii ''high'')) \<or> v = Some (JString (ascii ''critical''))"

text \<open>
  \<open>.filter(vuln => ['high', 'critical'].includes(vuln.severity))\<close>: the callback runs
  on the elements in order, and reading \<open>severity\<close> from \<open>null\<close> throws.
\<close>

fun filter_highSeverity :: "json list \<Rightarrow> js_error + json list" where
  "filter_highSeverity [] = Inr []"
| "filter_highSeverity (vuln # rest) =
     (case get_property vuln ''severity'' of
        Inl e \<Rightarrow> Inl e
      | Inr severity \<Rightarrow>
          (case filter_highSeverity rest of
             Inl e \<Rightarrow> Inl e
           | Inr kept \<Rightarrow> Inr (if includes_high_critical severity then vuln # kept else kept)))"

definition vulnerabilities_message :: "nat \<Rightarrow> jsstring" where
  "vulnerabilities_message n =
     lock_sign @ ascii '' '' @ string_of_nat n
     @ ascii '' high/critical security vulnerabilities found! Run '' @ apostrophe
     @ ascii ''npm audit fix'' @ apostrophe @ ascii '' before committing.''"

definition checkSecurityVulnerabilities_try ::
    "config \<Rightarrow> exec_result \<Rightarrow> checker \<Rightarrow> (js_error + unit) \<times> checker" where
  "checkSecurityVulnerabilities_try cfg query s =
     (let s1 = log_message cfg (ascii ''Checking for security vulnerabilities...'') LogInfo s in
      case query of
        Threw m \<Rightarrow> (Inl (Error m), s1)
      | Returned auditResult \<Rightarrow>
          (case JSON_parse auditResult of
             Inl e \<Rightarrow> (Inl e, s1)
           | Inr audit \<Rightarrow>
               (case get_property audit ''vulnerabilities'' of
                  Inl e \<Rightarrow> (Inl e, s1)
                | Inr None \<Rightarrow> (Inr (), s1)
                | Inr (Some vulnerabilities) \<Rightarrow>
                    if \<not> truthy (Some vulnerabilities) then (Inr (), s1)
                    else
                      (case Object_keys vulnerabilities of
                         Inl e \<Rightarrow> (Inl e, s1)
                       | Inr keys \<Rightarrow>
                           if \<not> 0 < length keys then (Inr (), s1)
                           else
                             (case Object_values vulnerabilities of
                                Inl e \<Rightarrow> (Inl e, s1)
                              | Inr vulns \<Rightarrow>
                                  (case filter_highSeverity vulns of
                                     Inl e \<Rightarrow> (Inl e, s1)
                                   | Inr highSeverity \<Rightarrow>
                                       if 0 < length highSeverity
                                       then (Inr (),
                                             push_error
                                               (vulnerabilities_message (length highSeverity)) s1)
                                       else (Inr (), s1)))))))"

definition checkSecurityVulnerabilities :: "config \<Rightarrow> exec_result \<Rightarrow> checker \<Rightarrow> checker" where
  "checkSecurityVulnerabilities cfg query s =
     (case checkSecurityVulnerabilities_try cfg query s of
        (Inr u, s1) \<Rightarrow> s1
      | (Inl error, s1) \<Rightarrow>
          if \<not> ALLOW_NETWORK_FAILURE cfg
          then push_warning (ascii ''Could not check security vulnerabilities'') s1
          else s1)"

subsection \<open>Freshness analysis\<close>

text \<open>
  \<open>\<^verbatim>\<open>${info.current}\<close>\<close> and \<open>\<^verbatim>\<open>${info.latest}\<close>\<close> in the message of an entry. The message is
  built after \<open>getVersionDifference\<close> has returned, which it does for two strings only
  (lemma \<open>getVersionDifference_returns_iff\<close>), and a string is inserted as it is.
\<close>

fun template_text :: "jsval \<Rightarrow> jsstring" where
  "template_text (Some (JString s)) = s"
| "template_text v = []"

definition entry_message :: "jsstring \<Rightarrow> jsval \<Rightarrow> jsval \<Rightarrow> version_difference \<Rightarrow> jsstring" where
  "entry_message packageName current latest versionDiff =
     ascii ''  '' @ packageName @ ascii '': '' @ template_text current @ ascii '' ''
     @ rightwards_arrow @ ascii '' '' @ template_text latest
     @ ascii '' ('' @ difference_name versionDiff @ ascii '')''"

definition major_warning :: "jsstring \<Rightarrow> jsstring" where
  "major_warning msg = package_sign @ ascii '' Major version available: '' @ msg"

definition minor_warning :: "jsstring \<Rightarrow> jsstring" where
  "minor_warning msg = package_sign @ ascii '' Minor version available: '' @ msg"

definition patch_error :: "jsstring \<Rightarrow> jsstring" where
  "patch_error msg =
     wrench_sign @ ascii '' Patch version available: '' @ msg @ ascii '' - Consider updating soon''"

text \<open>The body of the \<open>for\<close> loop of \<open>analyzeOutdatedPackages\<close>, for one entry.\<close>

definition analyzeEntry ::
    "config \<Rightarrow> jsstring \<times> json \<Rightarrow> checker \<Rightarrow> (js_error + unit) \<times> checker" where
  "analyzeEntry cfg entry s =
     (case entry of (packageName, info) \<Rightarrow>
     (case get_property info ''current'' of
        Inl e \<Rightarrow> (Inl e, s)
      | Inr current \<Rightarrow>
          (case get_property info ''latest'' of
             Inl e \<Rightarrow> (Inl e, s)
           | Inr latest \<Rightarrow>
               (case getVersionDifference current latest of
                  Inl e \<Rightarrow> (Inl e, s)
                | Inr versionDiff \<Rightarrow>
                    let msg = entry_message packageName current latest versionDiff;
                        s1 = (case versionDiff of
                                Major \<Rightarrow> push_warning (major_warning msg) s
                              | Minor \<Rightarrow> push_warning (minor_warning msg) s
                              | Patch \<Rightarrow> push_error (patch_error msg) s
                              | NoDifference \<Rightarrow> s
                              | Unknown \<Rightarrow> s)
                    in (Inr (), log_message cfg msg LogInfo s1)))))"

fun analyzeEntries ::
    "config \<Rightarrow> (jsstring \<times> json) list \<Rightarrow> checker \<Rightarrow> (js_error + unit) \<times> checker" where
  "analyzeEntries cfg [] s = (Inr (), s)"
| "analyzeEntries cfg (entry # rest) s =
     (case analyzeEntry cfg entry s of
        (Inl e, s1) \<Rightarrow> (Inl e, s1)
      | (Inr u, s1) \<Rightarrow> analyzeEntries cfg rest s1)"

definition analyzeOutdatedPackages ::
    "config \<Rightarrow> json \<Rightarrow> checker \<Rightarrow> (js_error + unit) \<times> checker" where
  "analyzeOutdatedPackages cfg outdated s =
     (case Object_keys outdated of
        Inl e \<Rightarrow> (Inl e, s)
      | Inr packageNames \<Rightarrow>
          if length packageNames = 0 then (Inr (), s)
          else
            let s1 = log_message cfg
                       (ascii ''Found '' @ string_of_nat (length packageNames)
                        @ ascii '' outdated packages:'') LogInfo s
            in (case Object_entries outdated of
                  Inl e \<Rightarrow> (Inl e, s1)
                | Inr entries \<Rightarrow> analyzeEntries cfg entries s1))"

subsection \<open>Verdict and run\<close>

text \<open>\<open>xs.forEach(x => console.log(x))\<close>\<close>

definition print_each :: "jsstring list \<Rightarrow> checker \<Rightarrow> checker" where
  "print_each xs s = fold console_log xs s"

text \<open>The report at the end of the \<open>try\<close> block of \<open>run\<close>: the exit code and the output.\<close>

definition report :: "config \<Rightarrow> checker \<Rightarrow> nat \<times> checker" where
  "report cfg s =
     (if 0 < length (errors s)
      then
        let s1 = console_log (newline @ no_entry_sign @ ascii '' Pre-commit check FAILED:'') s;
            s2 = print_each (errors s) s1;
            s3 = console_log (newline @ ascii ''Please address these issues before committing.'') s2;
            s4 = console_log
                   (ascii ''Hint: Run '' @ quotation_mark @ ascii ''npm update'' @ quotation_mark
                    @ ascii '' or '' @ quotation_mark @ ascii ''npm audit fix'' @ quotation_mark
                    @ ascii '' to resolve some issues.'') s3
        in (1, s4)
      else
        let s1 = (if 0 < length (warnings s)
                  then console_log
                         (newline @ ascii ''Consider updating these packages when convenient.'')
                         (print_each (warnings s)
                            (console_log
                               (newline @ warning_sign @ ascii ''  Package freshness warnings:'') s))
                  else s);
            s2 = (if length (warnings s) = 0 \<and> length (errors s) = 0
                  then log_message cfg (ascii ''Package freshness check passed! '' @ check_mark)
                         LogInfo s1
                  else s1)
        in (0, s2))"

text \<open>
  The \<open>try\<close> block of \<open>run\<close>. Both query methods are called, in this order, before
  \<open>Promise.all\<close> is awaited: neither suspends, so each runs to its end when it is
  called, and the audit runs also when the first query has thrown. The rejection of
  the first query is then thrown by the \<open>await\<close>.
\<close>

definition run_try :: "config \<Rightarrow> environment \<Rightarrow> checker \<Rightarrow> (js_error + nat) \<times> checker" where
  "run_try cfg env s =
     (case checkPackageExists cfg env s of
        (False, s0) \<Rightarrow> (Inr 0, s0)
      | (True, s0) \<Rightarrow>
          (case getOutdatedPackages cfg (npm_outdated env) s0 of (first, s1) \<Rightarrow>
           (let s2 = checkSecurityVulnerabilities cfg (npm_audit env) s1 in
            (case first of
               Inl e \<Rightarrow> (Inl e, s2)
             | Inr outdated \<Rightarrow>
                 (case analyzeOutdatedPackages cfg outdated s2 of
                    (Inl e, s3) \<Rightarrow> (Inl e, s3)
                  | (Inr u, s3) \<Rightarrow>
                      (case report cfg s3 of (code, s4) \<Rightarrow> (Inr code, s4)))))))"

definition run :: "config \<Rightarrow> environment \<Rightarrow> checker \<Rightarrow> nat \<times> checker" where
  "run cfg env s =
     (case run_try cfg env s of
        (Inr code, s1) \<Rightarrow> (code, s1)
      | (Inl error, s1) \<Rightarrow>
          (if ALLOW_NETWORK_FAILURE cfg then 0 else 1,
           console_error
             (cross_mark @ ascii '' Package freshness check failed: '' @ message error) s1))"

text \<open>The script: a new checker is constructed, run, and the process exits with its code.\<close>

definition main :: "config \<Rightarrow> environment \<Rightarrow> nat \<times> checker" where
  "main cfg env = run cfg env constructor"

subsection \<open>Notions used to state the properties\<close>

text \<open>A non-empty run of decimal digits, what \<open>\d+\<close> matches.\<close>

definition digit_run :: "jsstring \<Rightarrow> bool" where
  "digit_run ds \<longleftrightarrow> ds \<noteq> [] \<and> list_all is_digit ds"

text \<open>
  The version delta of an entry of the outdated report and the line the analysis logs for
  it; \<open>None\<close> when computing the delta throws, that is, unless the entry is not
  \<open>null\<close> and both \<open>current\<close> and \<open>latest\<close> are strings.
\<close>

definition entry_finding :: "jsstring \<times> json \<Rightarrow> (version_difference \<times> jsstring) option" where
  "entry_finding entry =
     (case get_property (snd entry) ''current'' of
        Inl e \<Rightarrow> None
      | Inr current \<Rightarrow>
          (case get_property (snd entry) ''latest'' of
             Inl e \<Rightarrow> None
           | Inr latest \<Rightarrow>
               (case getVersionDifference current latest of
                  Inl e \<Rightarrow> None
                | Inr d \<Rightarrow> Some (d, entry_message (fst entry) current latest d))))"

text \<open>
  The policy of the specification (section 4.3), in its words: major and minor give a
  warning, patch gives a blocking finding, none and unknown give no finding.
\<close>

datatype severity = Warning | Blocking

fun policy :: "version_difference \<Rightarrow> severity option" where
  "policy Major = Some Warning"
| "policy Minor = Some Warning"
| "policy Patch = Some Blocking"
| "policy NoDifference = None"
| "policy Unknown = None"

text \<open>The text of the finding for a delta and the line of its entry.\<close>

fun finding_text :: "version_difference \<times> jsstring \<Rightarrow> jsstring" where
  "finding_text (Major, line) = major_warning line"
| "finding_text (Minor, line) = minor_warning line"
| "finding_text (Patch, line) = patch_error line"
| "finding_text (d, line) = line"

text \<open>An entry with the two version strings, as \<open>npm outdated --json\<close> reports it.\<close>

definition outdated_entry :: "string \<Rightarrow> string \<Rightarrow> string \<Rightarrow> jsstring \<times> json" where
  "outdated_entry name current latest =
     (ascii name, JObject [(ascii ''current'', JString (ascii current)),
                           (ascii ''latest'', JString (ascii latest))])"

text \<open>An entry of the audit report whose \<open>severity\<close> is \<open>high\<close> or \<open>critical\<close>.\<close>

definition high_or_critical :: "json \<Rightarrow> bool" where
  "high_or_critical vuln =
     (case get_property vuln ''severity'' of
        Inl e \<Rightarrow> False
      | Inr severity \<Rightarrow> includes_high_critical severity)"

text \<open>An audit report with the given vulnerabilities, and an entry with a severity.\<close>

definition audit_report :: "(jsstring \<times> json) list \<Rightarrow> exec_result" where
  "audit_report vulns = Returned (Wellformed (JObject [(ascii ''vulnerabilities'', JObject vulns)]))"

definition vulnerability :: "string \<Rightarrow> string \<Rightarrow> jsstring \<times> json" where
  "vulnerability name severity = (ascii name, JObject [(ascii ''severity'', JString (ascii severity))])"

text \<open>
  A failed query: \<open>execSync\<close> throws, or its output is not JSON. A blank output is a
  failure of the audit only, since \<open>getOutdatedPackages\<close> tests for it before parsing.
\<close>

fun outdated_failed :: "exec_result \<Rightarrow> bool" where
  "outdated_failed (Threw m) = True"
| "outdated_failed (Returned (Malformed m)) = True"
| "outdated_failed (Returned Blank) = False"
| "outdated_failed (Returned (Wellformed v)) = False"

fun audit_failed :: "exec_result \<Rightarrow> bool" where
  "audit_failed (Threw m) = True"
| "audit_failed (Returned (Malformed m)) = True"
| "audit_failed (Returned Blank) = True"
| "audit_failed (Returned (Wellformed v)) = False"

text \<open>The message of the error a failed query throws inside the \<open>try\<close> block.\<close>

fun failure_message :: "exec_result \<Rightarrow> jsstring" where
  "failure_message (Threw m) = m"
| "failure_message (Returned out) = (case JSON_parse out of Inl e \<Rightarrow> message e | Inr v \<Rightarrow> [])"

text \<open>A configuration with the strict policy, which the shipped \<open>CONFIG\<close> does not have.\<close>

definition strict_config :: config where
  "strict_config = \<lparr>ALLOW_NETWORK_FAILURE = False, VERBOSE = False\<rparr>"

text \<open>A project with a \<open>package.json\<close>, nothing outdated and an empty audit report.\<close>

definition quiet_environment :: environment where
  "quiet_environment =
     \<lparr>package_json_exists = True, npm_outdated = Returned Blank,
      npm_audit = Returned (Wellformed (JObject []))\<rparr>"

definition timed_out :: exec_result where
  "timed_out = Threw (ascii ''spawnSync /bin/sh ETIMEDOUT'')"

text \<open>A project with a \<open>package.json\<close> whose two queries give the reports \<open>entries\<close> and \<open>audit\<close>.\<close>

definition project :: "(jsstring \<times> json) list \<Rightarrow> exec_result \<Rightarrow> environment" where
  "project entries audit =
     \<lparr>package_json_exists = True, npm_outdated = Returned (Wellformed (JObject entries)),
      npm_audit = audit\<rparr>"

text \<open>
  An entry as \<open>npm outdated --json\<close> reports it for a dependency that is not installed:
  it has no \<open>current\<close>.
\<close>

definition missing_entry :: "string \<Rightarrow> string \<Rightarrow> jsstring \<times> json" where
  "missing_entry name latest =
     (ascii name, JObject [(ascii ''wanted'', JString (ascii latest)),
                           (ascii ''latest'', JString (ascii latest))])"

text \<open>The lines of the three outputs of the report.\<close>

definition failed_block :: "jsstring list \<Rightarrow> jsstring list" where
  "failed_block blocking =
     [newline @ no_entry_sign @ ascii '' Pre-commit check FAILED:'']
     @ blocking
     @ [newline @ ascii ''Please address these issues before committing.'',
        ascii ''Hint: Run '' @ quotation_mark @ ascii ''npm update'' @ quotation_mark
        @ ascii '' or '' @ quotation_mark @ ascii ''npm audit fix'' @ quotation_mark
        @ ascii '' to resolve some issues.'']"

definition warnings_block :: "jsstring list \<Rightarrow> jsstring list" where
  "warnings_block advisory =
     [newline @ warning_sign @ ascii ''  Package freshness warnings:'']
     @ advisory
     @ [newline @ ascii ''Consider updating these packages when convenient.'']"

definition confirmation_line :: jsstring where
  "confirmation_line =
     information_sign @ ascii '' '' @ ascii ''Package freshness check passed! '' @ check_mark"

section \<open>Properties\<close>

subsection \<open>Evaluation of literals\<close>

lemmas literal_simps =
  ascii_def is_digit_def digit_value_def decimal_value_def parseInt_def f64_of_nat_def Let_def

lemma full_stop_not_digit [simp]: "\<not> is_digit 0x2E"
  by (simp add: is_digit_def)

subsection \<open>The regular expression of \<open>parseVersion\<close>\<close>

lemma takeWhile_digit_run:
  assumes "list_all is_digit ds" and "rest = [] \<or> \<not> is_digit (hd rest)"
  shows "takeWhile is_digit (ds @ rest) = ds" and "dropWhile is_digit (ds @ rest) = rest"
proof -
  from assms(2) have t: "takeWhile is_digit rest = []" and d: "dropWhile is_digit rest = rest"
    by (cases rest; auto)+
  from assms(1) have all: "\<And>x. x \<in> set ds \<Longrightarrow> is_digit x"
    by (simp add: list_all_iff)
  show "takeWhile is_digit (ds @ rest) = ds"
    using all t by simp
  show "dropWhile is_digit (ds @ rest) = rest"
    using all d by simp
qed

lemma match_version_complete:
  assumes "digit_run a" "digit_run b" "digit_run c" "rest = [] \<or> \<not> is_digit (hd rest)"
  shows "match_version (a @ [0x2E] @ b @ [0x2E] @ c @ rest) = Some (a, b, c)"
proof -
  let ?s3 = "c @ rest" and ?s2 = "b @ 0x2E # c @ rest"
  have 1: "takeWhile is_digit (a @ 0x2E # ?s2) = a"
    "dropWhile is_digit (a @ 0x2E # ?s2) = 0x2E # ?s2"
    using assms(1) by (simp_all add: takeWhile_digit_run digit_run_def)
  have 2: "takeWhile is_digit (b @ 0x2E # ?s3) = b"
    "dropWhile is_digit (b @ 0x2E # ?s3) = 0x2E # ?s3"
    using assms(2) by (simp_all add: takeWhile_digit_run digit_run_def)
  have 3: "takeWhile is_digit (c @ rest) = c"
    using assms(3,4) by (simp add: takeWhile_digit_run digit_run_def)
  show ?thesis
    using assms(1-3) by (simp add: match_version_def 1 2 3 digit_run_def)
qed

lemma match_version_sound:
  assumes "match_version s = Some (a, b, c)"
  shows "\<exists>rest. s = a @ [0x2E] @ b @ [0x2E] @ c @ rest \<and> digit_run a \<and> digit_run b
           \<and> digit_run c \<and> (rest = [] \<or> \<not> is_digit (hd rest))"
proof -
  obtain s2 where a: "a = takeWhile is_digit s" "a \<noteq> []"
    and r1: "dropWhile is_digit s = 0x2E # s2"
    and m2: "(let g2 = takeWhile is_digit s2; r2 = dropWhile is_digit s2 in
            if g2 = [] then None
            else
              (case r2 of
                 [] \<Rightarrow> None
               | c2 # s3 \<Rightarrow>
                   if c2 \<noteq> 0x2E then None
                   else
                     (let g3 = takeWhile is_digit s3 in
                      if g3 = [] then None else Some (takeWhile is_digit s, g2, g3))))
             = Some (a, b, c)"
    using assms unfolding match_version_def
    by (auto simp: Let_def split: if_splits list.splits)
  obtain s3 where b: "b = takeWhile is_digit s2" "b \<noteq> []"
    and r2: "dropWhile is_digit s2 = 0x2E # s3"
    and c: "c = takeWhile is_digit s3" "c \<noteq> []"
    using m2 by (auto simp: Let_def split: if_splits list.splits)
  let ?rest = "dropWhile is_digit s3"
  have "s = a @ dropWhile is_digit s" using a by simp
  also have "\<dots> = a @ 0x2E # (b @ dropWhile is_digit s2)" using r1 b by simp
  also have "\<dots> = a @ 0x2E # (b @ 0x2E # (c @ ?rest))" using r2 c by simp
  finally have s: "s = a @ [0x2E] @ b @ [0x2E] @ c @ ?rest" by simp
  have digs: "digit_run a" "digit_run b" "digit_run c"
    using a b c by (auto simp: digit_run_def list_all_iff dest: set_takeWhileD)
  have "?rest = [] \<or> \<not> is_digit (hd ?rest)"
    by (metis hd_dropWhile)
  with s digs show ?thesis by blast
qed

lemma parseInt_exact: "decimal_value ds < 2 ^ 53 \<Longrightarrow> parseInt ds = Finite (decimal_value ds)"
  by (simp add: parseInt_def f64_of_nat_def)

subsection \<open>Version difference\<close>

text \<open>
  C4. \<open>getVersionDifference\<close> tests each component on its own: the minor components are
  compared although the major component of \<open>latest\<close> is below that of \<open>current\<close>.
  With current \<open>2.0.0\<close> and latest \<open>1.5.0\<close> the current version is the newer one, and the
  result is \<open>minor\<close>, not \<open>none\<close>.
\<close>

theorem getVersionDifference_newer_current:
  "getVersionDifference (Some (JString (ascii ''2.0.0''))) (Some (JString (ascii ''1.5.0'')))
     = Inr Minor"
  by (simp add: getVersionDifference_def match_version_def literal_simps)

subsection \<open>Parsing a version\<close>

text \<open>
  C6 (as amended). \<open>parseVersion\<close> never throws on a string. It returns a version exactly
  when the string begins with three non-empty runs of decimal digits separated by full
  stops, the third run taken up to the first character that is not a digit; whatever
  follows is ignored, while any character in front of the first digit makes it return
  \<open>null\<close>. The three fields are \<open>parseInt\<close> of the runs, which is the decimal value of
  a run whenever that is below \<open>2 ^ 53\<close>. In particular \<open>1.2.3\<close> gives major 1, minor 2,
  patch 3, and \<open>abc\<close> gives \<open>null\<close>.
\<close>

theorem parseVersion_leading_pattern:
  "(\<exists>r. parseVersion (Some (JString s)) = Inr r)
   \<and> (parseVersion (Some (JString s)) = Inr (Some v) \<longleftrightarrow>
        (\<exists>a b c rest.
            s = a @ ascii ''.'' @ b @ ascii ''.'' @ c @ rest
          \<and> digit_run a \<and> digit_run b \<and> digit_run c
          \<and> (rest = [] \<or> \<not> is_digit (hd rest))
          \<and> v = \<lparr>major = parseInt a, minor = parseInt b, patch = parseInt c\<rparr>))
   \<and> (\<forall>ds. decimal_value ds < 2 ^ 53 \<longrightarrow> parseInt ds = Finite (decimal_value ds))
   \<and> parseVersion (Some (JString (ascii ''1.2.3'')))
        = Inr (Some \<lparr>major = Finite 1, minor = Finite 2, patch = Finite 3\<rparr>)
   \<and> parseVersion (Some (JString (ascii ''abc''))) = Inr None"
proof -
  have dot: "ascii ''.'' = [0x2E]"
    by (simp add: ascii_def)
  have "parseVersion (Some (JString s)) = Inr (Some v) \<longleftrightarrow>
        (\<exists>a b c rest.
            s = a @ ascii ''.'' @ b @ ascii ''.'' @ c @ rest
          \<and> digit_run a \<and> digit_run b \<and> digit_run c
          \<and> (rest = [] \<or> \<not> is_digit (hd rest))
          \<and> v = \<lparr>major = parseInt a, minor = parseInt b, patch = parseInt c\<rparr>)"
    (is "?lhs \<longleftrightarrow> ?rhs")
  proof
    assume ?lhs
    then obtain a b c where m: "match_version s = Some (a, b, c)"
      and v: "v = \<lparr>major = parseInt a, minor = parseInt b, patch = parseInt c\<rparr>"
      by (auto split: option.splits)
    from match_version_sound [OF m] v show ?rhs
      unfolding dot by blast
  next
    assume ?rhs
    then obtain a b c rest where s: "s = a @ [0x2E] @ b @ [0x2E] @ c @ rest"
      and d: "digit_run a" "digit_run b" "digit_run c" "rest = [] \<or> \<not> is_digit (hd rest)"
      and v: "v = \<lparr>major = parseInt a, minor = parseInt b, patch = parseInt c\<rparr>"
      unfolding dot by blast
    have "match_version s = Some (a, b, c)"
      unfolding s by (rule match_version_complete [OF d])
    then show ?lhs by (simp add: v)
  qed
  moreover have "\<exists>r. parseVersion (Some (JString s)) = Inr r"
    by simp
  moreover have "parseVersion (Some (JString (ascii ''1.2.3'')))
        = Inr (Some \<lparr>major = Finite 1, minor = Finite 2, patch = Finite 3\<rparr>)"
    by (simp add: match_version_def literal_simps)
  moreover have "parseVersion (Some (JString (ascii ''abc''))) = Inr None"
    by (simp add: match_version_def literal_simps)
  ultimately show ?thesis
    using parseInt_exact by blast
qed

theorem parseVersion_leading_pattern_witness:
  "digit_run (ascii ''10'') \<and> digit_run (ascii ''2'') \<and> digit_run (ascii ''3'')
   \<and> \<not> is_digit (hd (ascii ''-beta.4''))
   \<and> decimal_value (ascii ''10'') < 2 ^ 53
   \<and> parseVersion (Some (JString (ascii ''10.2.3-beta.4'')))
       = Inr (Some \<lparr>major = Finite 10, minor = parseInt (ascii ''2''), patch = parseInt (ascii ''3'')\<rparr>)"
proof -
  have d: "digit_run (ascii ''10'')" "digit_run (ascii ''2'')" "digit_run (ascii ''3'')"
    "\<not> is_digit (hd (ascii ''-beta.4''))"
    by (simp_all add: digit_run_def ascii_def is_digit_def)
  have v: "decimal_value (ascii ''10'') < 2 ^ 53"
    by (simp add: literal_simps)
  have s: "ascii ''10.2.3-beta.4''
      = ascii ''10'' @ ascii ''.'' @ ascii ''2'' @ ascii ''.'' @ ascii ''3'' @ ascii ''-beta.4''"
    by (simp add: ascii_def)
  have ten: "decimal_value (ascii ''10'') = 10"
    by (simp add: literal_simps)
  note inst = parseVersion_leading_pattern [of "ascii ''10.2.3-beta.4''"
      "\<lparr>major = parseInt (ascii ''10''), minor = parseInt (ascii ''2''), patch = parseInt (ascii ''3'')\<rparr>"]
  from inst have exact: "parseInt (ascii ''10'') = Finite (decimal_value (ascii ''10''))"
    using v by blast
  from inst d s have "parseVersion (Some (JString (ascii ''10.2.3-beta.4'')))
       = Inr (Some \<lparr>major = parseInt (ascii ''10''), minor = parseInt (ascii ''2''), patch = parseInt (ascii ''3'')\<rparr>)"
    by blast
  with d v exact ten show ?thesis by simp
qed

text \<open>
  C6 as stated has any prefix ignored: the range \<open>^1.2.3\<close> holds the pattern \<open>1.2.3\<close>
  behind a one-character prefix, and \<open>parseVersion\<close> returns \<open>null\<close> for it.
\<close>

theorem parseVersion_prefix_counterexample:
  "parseVersion (Some (JString (ascii ''^1.2.3''))) = Inr None"
  by (simp add: match_version_def literal_simps)

subsection \<open>State projections\<close>

lemma console_log_fields [simp]:
  "warnings (console_log l s) = warnings s"
  "errors (console_log l s) = errors s"
  "console (console_log l s) = console s @ [(Stdout, l)]"
  by (simp_all add: console_log_def)

lemma console_error_fields [simp]:
  "warnings (console_error l s) = warnings s"
  "errors (console_error l s) = errors s"
  "console (console_error l s) = console s @ [(Stderr, l)]"
  by (simp_all add: console_error_def)

lemma log_message_fields [simp]:
  "warnings (log_message cfg m t s) = warnings s"
  "errors (log_message cfg m t s) = errors s"
  "console (log_message cfg m t s) =
     console s @ (if VERBOSE cfg \<or> t = LogError then [(Stdout, log_prefix t @ ascii '' '' @ m)] else [])"
  by (simp_all add: log_message_def)

lemma push_warning_fields [simp]:
  "warnings (push_warning w s) = warnings s @ [w]"
  "errors (push_warning w s) = errors s"
  "console (push_warning w s) = console s"
  by (simp_all add: push_warning_def)

lemma push_error_fields [simp]:
  "warnings (push_error e s) = warnings s"
  "errors (push_error e s) = errors s @ [e]"
  "console (push_error e s) = console s"
  by (simp_all add: push_error_def)

lemma print_each_fields [simp]:
  "warnings (print_each xs s) = warnings s"
  "errors (print_each xs s) = errors s"
  "console (print_each xs s) = console s @ map (Pair Stdout) xs"
  unfolding print_each_def by (induction xs arbitrary: s) simp_all

subsection \<open>Version difference of two strings\<close>

lemma getVersionDifference_strings:
  "getVersionDifference (Some (JString c)) (Some (JString l)) =
     Inr (case match_version c of
            None \<Rightarrow> Unknown
          | Some (c1, c2, c3) \<Rightarrow>
              (case match_version l of
                 None \<Rightarrow> Unknown
               | Some (l1, l2, l3) \<Rightarrow>
                   if greater (parseInt l1) (parseInt c1) then Major
                   else if greater (parseInt l2) (parseInt c2) then Minor
                   else if greater (parseInt l3) (parseInt c3) then Patch
                   else NoDifference))"
  by (simp add: getVersionDifference_def split: option.splits)

lemma getVersionDifference_returns_iff:
  "(\<exists>d. getVersionDifference current latest = Inr d) \<longleftrightarrow>
   (\<exists>c l. current = Some (JString c) \<and> latest = Some (JString l))"
proof
  assume "\<exists>d. getVersionDifference current latest = Inr d"
  then obtain d where d: "getVersionDifference current latest = Inr d" ..
  have "\<exists>c. current = Some (JString c)"
    using d by (cases current rule: parseVersion.cases) (simp_all add: getVersionDifference_def)
  moreover have "\<exists>l. latest = Some (JString l)"
    using d by (cases latest rule: parseVersion.cases)
      (auto simp: getVersionDifference_def split: sum.splits)
  ultimately show "\<exists>c l. current = Some (JString c) \<and> latest = Some (JString l)"
    by blast
next
  assume "\<exists>c l. current = Some (JString c) \<and> latest = Some (JString l)"
  then show "\<exists>d. getVersionDifference current latest = Inr d"
    by (auto simp: getVersionDifference_strings)
qed

subsection \<open>Analysis of the outdated report\<close>

text \<open>What the loop body does to the findings, by the policy.\<close>

lemma analyzeEntry_finding:
  assumes "entry_finding entry = Some f"
  shows "fst (analyzeEntry cfg entry s) = Inr ()"
    and "warnings (snd (analyzeEntry cfg entry s)) =
           warnings s @ (if policy (fst f) = Some Warning then [finding_text f] else [])"
    and "errors (snd (analyzeEntry cfg entry s)) =
           errors s @ (if policy (fst f) = Some Blocking then [finding_text f] else [])"
    and "console (snd (analyzeEntry cfg entry s)) =
           console s @ (if VERBOSE cfg then [(Stdout, information_sign @ ascii '' '' @ snd f)] else [])"
  using assms
  by (cases entry; cases "fst f";
      auto simp: entry_finding_def analyzeEntry_def Let_def split: sum.splits)+

lemma analyzeEntry_throws:
  assumes "entry_finding entry = None"
  shows "\<exists>e. analyzeEntry cfg entry s = (Inl e, s)"
  using assms
  by (cases entry) (auto simp: entry_finding_def analyzeEntry_def Let_def split: sum.splits)

lemma analyzeEntries_findings:
  assumes "\<forall>e \<in> set entries. entry_finding e \<noteq> None"
  shows "fst (analyzeEntries cfg entries s) = Inr ()
       \<and> warnings (snd (analyzeEntries cfg entries s)) =
           warnings s @ map finding_text
             (filter (\<lambda>f. policy (fst f) = Some Warning) (List.map_filter entry_finding entries))
       \<and> errors (snd (analyzeEntries cfg entries s)) =
           errors s @ map finding_text
             (filter (\<lambda>f. policy (fst f) = Some Blocking) (List.map_filter entry_finding entries))"
  using assms
proof (induction entries arbitrary: s)
  case Nil
  show ?case by simp
next
  case (Cons entry rest)
  from Cons.prems obtain f where f: "entry_finding entry = Some f" and
    rest: "\<forall>e \<in> set rest. entry_finding e \<noteq> None"
    by auto
  obtain s1 where s1: "analyzeEntry cfg entry s = (Inr (), s1)"
    using analyzeEntry_finding(1) [OF f, of cfg s] by (cases "analyzeEntry cfg entry s") auto
  have step: "analyzeEntries cfg (entry # rest) s = analyzeEntries cfg rest s1"
    by (simp add: s1)
  note one = analyzeEntry_finding(2,3) [OF f, of cfg s, unfolded s1 snd_conv]
  show ?case
    unfolding step using Cons.IH [OF rest, of s1] one
    by (simp add: f)
qed

lemma analyzeOutdatedPackages_object:
  "analyzeOutdatedPackages cfg (JObject entries) s =
     (if entries = [] then (Inr (), s)
      else analyzeEntries cfg entries
             (log_message cfg
                (ascii ''Found '' @ string_of_nat (length entries) @ ascii '' outdated packages:'')
                LogInfo s))"
  by (simp add: analyzeOutdatedPackages_def Object_keys_def)

lemma entry_finding_outdated_entry:
  "entry_finding (outdated_entry name current latest) =
     (case getVersionDifference (Some (JString (ascii current))) (Some (JString (ascii latest))) of
        Inl e \<Rightarrow> None
      | Inr d \<Rightarrow>
          Some (d, entry_message (ascii name) (Some (JString (ascii current)))
                     (Some (JString (ascii latest))) d))"
proof -
  have "ascii ''latest'' \<noteq> ascii ''current''"
    by (simp add: ascii_def)
  then show ?thesis
    by (simp add: entry_finding_def outdated_entry_def split: sum.splits)
qed

text \<open>
  On a report whose entries all hold two version strings the analysis follows the policy:
  the warnings it adds are the findings of the entries with a major or minor delta, the
  errors it adds are the findings of the entries with a patch delta, each in the order of
  the report, and entries with delta none or unknown add nothing.
\<close>

lemma analyzeOutdatedPackages_findings:
  assumes "\<forall>e \<in> set entries. entry_finding e \<noteq> None"
  shows "fst (analyzeOutdatedPackages cfg (JObject entries) s) = Inr ()
       \<and> warnings (snd (analyzeOutdatedPackages cfg (JObject entries) s)) =
           warnings s @ map finding_text
             (filter (\<lambda>f. policy (fst f) = Some Warning) (List.map_filter entry_finding entries))
       \<and> errors (snd (analyzeOutdatedPackages cfg (JObject entries) s)) =
           errors s @ map finding_text
             (filter (\<lambda>f. policy (fst f) = Some Blocking) (List.map_filter entry_finding entries))"
proof (cases "entries = []")
  case True
  then show ?thesis
    by (simp add: analyzeOutdatedPackages_object)
next
  case False
  then show ?thesis
    using analyzeEntries_findings [OF assms]
    by (simp add: analyzeOutdatedPackages_object)
qed

subsection \<open>The audit\<close>

lemma filter_highSeverity_no_null:
  assumes "JNull \<notin> set vulns"
  shows "filter_highSeverity vulns = Inr (filter high_or_critical vulns)"
  using assms
proof (induction vulns)
  case Nil
  show ?case by simp
next
  case (Cons vuln rest)
  then have "vuln \<noteq> JNull" and IH: "filter_highSeverity rest = Inr (filter high_or_critical rest)"
    by auto
  then have "\<exists>severity. get_property vuln ''severity'' = Inr severity
               \<and> high_or_critical vuln = includes_high_critical severity"
    by (cases vuln) (simp_all add: high_or_critical_def)
  with IH show ?case
    by auto
qed

lemma checkSecurityVulnerabilities_try_state:
  "fst (checkSecurityVulnerabilities_try cfg query s)
     = fst (checkSecurityVulnerabilities_try cfg' query constructor)"
  "warnings (snd (checkSecurityVulnerabilities_try cfg query s)) = warnings s"
  "errors (snd (checkSecurityVulnerabilities_try cfg query s))
     = errors s @ errors (snd (checkSecurityVulnerabilities_try cfg' query constructor))"
  by (simp_all add: checkSecurityVulnerabilities_try_def constructor_def Let_def
      split: exec_result.splits sum.splits option.splits)

lemma checkSecurityVulnerabilities_state:
  "errors (checkSecurityVulnerabilities cfg query s)
     = errors s @ errors (checkSecurityVulnerabilities cfg' query constructor)"
  "warnings (checkSecurityVulnerabilities cfg query s)
     = warnings s @ warnings (checkSecurityVulnerabilities cfg query constructor)"
proof -
  obtain r s1 where t: "checkSecurityVulnerabilities_try cfg query s = (r, s1)"
    by (cases "checkSecurityVulnerabilities_try cfg query s")
  obtain r' s1' where t': "checkSecurityVulnerabilities_try cfg' query constructor = (r', s1')"
    by (cases "checkSecurityVulnerabilities_try cfg' query constructor")
  obtain r0 s0 where t0: "checkSecurityVulnerabilities_try cfg query constructor = (r0, s0)"
    by (cases "checkSecurityVulnerabilities_try cfg query constructor")
  have r: "r = r'" "r = r0"
    using checkSecurityVulnerabilities_try_state(1) [of cfg query s cfg']
          checkSecurityVulnerabilities_try_state(1) [of cfg query s cfg]
    by (simp_all add: t t' t0)
  have e: "errors s1 = errors s @ errors s1'"
    using checkSecurityVulnerabilities_try_state(3) [of cfg query s cfg'] by (simp add: t t')
  have "warnings s0 = warnings constructor"
    using checkSecurityVulnerabilities_try_state(2) [of cfg query constructor] by (simp add: t0)
  then have w0: "warnings s0 = []"
    by (simp add: constructor_def)
  have w: "warnings s1 = warnings s"
    using checkSecurityVulnerabilities_try_state(2) [of cfg query s] by (simp add: t)
  show "errors (checkSecurityVulnerabilities cfg query s)
     = errors s @ errors (checkSecurityVulnerabilities cfg' query constructor)"
    using e r by (simp add: checkSecurityVulnerabilities_def t t' split: sum.splits)
  show "warnings (checkSecurityVulnerabilities cfg query s)
     = warnings s @ warnings (checkSecurityVulnerabilities cfg query constructor)"
    using w w0 r by (simp add: checkSecurityVulnerabilities_def t t0 split: sum.splits)
qed

lemma checkSecurityVulnerabilities_failed:
  assumes "audit_failed query"
  shows "checkSecurityVulnerabilities cfg query s =
           (let s1 = log_message cfg (ascii ''Checking for security vulnerabilities...'') LogInfo s
            in if ALLOW_NETWORK_FAILURE cfg then s1
               else push_warning (ascii ''Could not check security vulnerabilities'') s1)"
  using assms
  by (cases query rule: audit_failed.cases)
     (simp_all add: checkSecurityVulnerabilities_def checkSecurityVulnerabilities_try_def Let_def)

lemma checkSecurityVulnerabilities_report:
  assumes "JNull \<notin> snd ` set vulns"
  shows "checkSecurityVulnerabilities cfg (audit_report vulns) s =
           (let s1 = log_message cfg (ascii ''Checking for security vulnerabilities...'') LogInfo s;
                n = length (filter high_or_critical (map snd vulns))
            in if 0 < n then push_error (vulnerabilities_message n) s1 else s1)"
proof -
  have "filter_highSeverity (map snd vulns) = Inr (filter high_or_critical (map snd vulns))"
    using assms by (intro filter_highSeverity_no_null) simp
  then show ?thesis
    by (simp add: checkSecurityVulnerabilities_def checkSecurityVulnerabilities_try_def Let_def
        audit_report_def Object_keys_def Object_values_def)
qed

lemma high_or_critical_vulnerability:
  "high_or_critical (snd (vulnerability name severity))
     \<longleftrightarrow> ascii severity = ascii ''high'' \<or> ascii severity = ascii ''critical''"
  by (simp add: high_or_critical_def vulnerability_def includes_high_critical_def)

text \<open>
  C5 (as amended). For an audit report whose vulnerabilities are an object without
  \<open>null\<close> entries, the check adds no warning and at most one blocking finding: none when
  no entry has severity \<open>high\<close> or \<open>critical\<close>, and otherwise a single one, whose
  message carries the number of such entries. Entries with any other severity, or with
  none, are not counted.
\<close>

theorem checkSecurityVulnerabilities_counted_finding:
  assumes "JNull \<notin> snd ` set vulns"
  shows "warnings (checkSecurityVulnerabilities cfg (audit_report vulns) s) = warnings s
       \<and> errors (checkSecurityVulnerabilities cfg (audit_report vulns) s) =
           errors s @
           (let n = length (filter high_or_critical (map snd vulns))
            in if 0 < n then [vulnerabilities_message n] else [])"
  by (simp add: checkSecurityVulnerabilities_report [OF assms] Let_def)

theorem checkSecurityVulnerabilities_counted_finding_witness:
  "JNull \<notin> snd ` set [vulnerability ''lodash'' ''critical'', vulnerability ''minimist'' ''low'']
   \<and> errors (checkSecurityVulnerabilities (CONFIG False)
        (audit_report [vulnerability ''lodash'' ''critical'', vulnerability ''minimist'' ''low''])
        constructor) = [vulnerabilities_message 1]"
proof -
  let ?vs = "[vulnerability ''lodash'' ''critical'', vulnerability ''minimist'' ''low'']"
  have h: "JNull \<notin> snd ` set ?vs"
    by (simp add: vulnerability_def)
  have c: "high_or_critical (snd (vulnerability ''lodash'' ''critical''))"
    and l: "\<not> high_or_critical (snd (vulnerability ''minimist'' ''low''))"
    by (simp_all add: high_or_critical_vulnerability ascii_def)
  show ?thesis
    using checkSecurityVulnerabilities_counted_finding [OF h, of "CONFIG False" constructor] h
    by (simp add: c l constructor_def)
qed

text \<open>
  C5 as stated has one blocking finding per entry of severity high or critical: for a
  report with two such entries the check records a single finding.
\<close>

theorem checkSecurityVulnerabilities_two_entries_counterexample:
  "errors (checkSecurityVulnerabilities (CONFIG False)
     (audit_report [vulnerability ''lodash'' ''critical'', vulnerability ''minimist'' ''high''])
     constructor) = [vulnerabilities_message 2]"
proof -
  let ?vs = "[vulnerability ''lodash'' ''critical'', vulnerability ''minimist'' ''high'']"
  have h: "JNull \<notin> snd ` set ?vs"
    by (simp add: vulnerability_def)
  have c: "high_or_critical (snd (vulnerability ''lodash'' ''critical''))"
    and l: "high_or_critical (snd (vulnerability ''minimist'' ''high''))"
    by (simp_all add: high_or_critical_vulnerability)
  show ?thesis
    by (simp add: checkSecurityVulnerabilities_report [OF h] Let_def c l constructor_def
        numeral_2_eq_2)
qed

subsection \<open>The outdated query and the run\<close>

lemma getOutdatedPackages_failed:
  assumes "outdated_failed query"
  shows "getOutdatedPackages cfg query s =
           (let s1 = log_message cfg (ascii ''Checking for outdated packages...'') LogInfo s
            in if ALLOW_NETWORK_FAILURE cfg
               then (Inr (JObject []),
                     log_message cfg
                       (ascii ''Network timeout or registry unavailable - allowing commit'')
                       LogWarn s1)
               else (Inl (Error (ascii ''Failed to check package versions: ''
                                 @ failure_message query)), s1))"
  using assms
  by (cases query rule: outdated_failed.cases)
     (simp_all add: getOutdatedPackages_def getOutdatedPackages_try_def Let_def)

lemma getOutdatedPackages_blank:
  "getOutdatedPackages cfg (Returned Blank) s =
     (Inr (JObject []),
      log_message cfg (ascii ''All packages are up to date! '' @ check_mark) LogInfo
        (log_message cfg (ascii ''Checking for outdated packages...'') LogInfo s))"
  by (simp add: getOutdatedPackages_def getOutdatedPackages_try_def Let_def)

lemma getOutdatedPackages_wellformed:
  "getOutdatedPackages cfg (Returned (Wellformed v)) s =
     (Inr v, log_message cfg (ascii ''Checking for outdated packages...'') LogInfo s)"
  by (simp add: getOutdatedPackages_def getOutdatedPackages_try_def Let_def)

lemma getOutdatedPackages_fields [simp]:
  "warnings (snd (getOutdatedPackages cfg query s)) = warnings s"
  "errors (snd (getOutdatedPackages cfg query s)) = errors s"
  by (simp_all add: getOutdatedPackages_def getOutdatedPackages_try_def Let_def
      split: exec_result.splits sum.splits stdout_text.splits)

lemma report_code:
  "fst (report cfg s) = (if errors s = [] then 0 else 1)"
  "warnings (snd (report cfg s)) = warnings s"
  "errors (snd (report cfg s)) = errors s"
  by (simp_all add: report_def Let_def)

lemma run_try_no_package:
  assumes "\<not> package_json_exists env"
  shows "run_try cfg env s =
           (Inr 0, log_message cfg
                     (ascii ''No package.json found, skipping package freshness check'') LogWarn s)"
  using assms by (simp add: run_try_def checkPackageExists_def)

lemma run_try_rejected:
  assumes "package_json_exists env"
    and "getOutdatedPackages cfg (npm_outdated env) s = (Inl e, s1)"
  shows "run_try cfg env s = (Inl e, checkSecurityVulnerabilities cfg (npm_audit env) s1)"
  using assms by (simp add: run_try_def checkPackageExists_def)

lemma run_try_returned:
  assumes "package_json_exists env"
    and "getOutdatedPackages cfg (npm_outdated env) s = (Inr outdated, s1)"
  shows "run_try cfg env s =
           (case analyzeOutdatedPackages cfg outdated
                   (checkSecurityVulnerabilities cfg (npm_audit env) s1) of
              (Inl e, s3) \<Rightarrow> (Inl e, s3)
            | (Inr u, s3) \<Rightarrow> (Inr (fst (report cfg s3)), snd (report cfg s3)))"
  using assms
  by (simp add: run_try_def checkPackageExists_def split: prod.splits sum.splits)

lemma run_empty_report:
  assumes "package_json_exists env"
    and "getOutdatedPackages cfg (npm_outdated env) s = (Inr (JObject []), s1)"
  shows "fst (run cfg env s) =
           (if errors s = [] \<and> errors (checkSecurityVulnerabilities cfg (npm_audit env) constructor) = []
            then 0 else 1)"
proof -
  have e: "errors s1 = errors s"
    using getOutdatedPackages_fields(2) [of cfg "npm_outdated env" s] by (simp add: assms(2))
  show ?thesis
    by (simp add: run_def run_try_returned [OF assms] analyzeOutdatedPackages_object report_code
        checkSecurityVulnerabilities_state(1) [of cfg _ s1 cfg] e)
qed

subsection \<open>Failure of a query\<close>

lemma run_failed_strict:
  assumes "outdated_failed (npm_outdated env)" "\<not> ALLOW_NETWORK_FAILURE cfg"
    "package_json_exists env"
  shows "fst (run cfg env s) = 1"
    and "last (console (snd (run cfg env s))) =
           (Stderr, cross_mark @ ascii '' Package freshness check failed: ''
                    @ ascii ''Failed to check package versions: ''
                    @ failure_message (npm_outdated env))"
proof -
  let ?s1 = "log_message cfg (ascii ''Checking for outdated packages...'') LogInfo s"
  have g: "getOutdatedPackages cfg (npm_outdated env) s =
             (Inl (Error (ascii ''Failed to check package versions: ''
                          @ failure_message (npm_outdated env))), ?s1)"
    using assms(2) by (simp add: getOutdatedPackages_failed [OF assms(1)])
  show "fst (run cfg env s) = 1"
    using assms(2) by (simp add: run_def run_try_rejected [OF assms(3) g])
  show "last (console (snd (run cfg env s))) =
           (Stderr, cross_mark @ ascii '' Package freshness check failed: ''
                    @ ascii ''Failed to check package versions: ''
                    @ failure_message (npm_outdated env))"
    by (simp add: run_def run_try_rejected [OF assms(3) g])
qed

lemma run_failed_allowed:
  assumes "outdated_failed q" "ALLOW_NETWORK_FAILURE cfg"
  shows "fst (run cfg (env\<lparr>npm_outdated := q\<rparr>) s)
           = fst (run cfg (env\<lparr>npm_outdated := Returned Blank\<rparr>) s)"
proof (cases "package_json_exists env")
  case False
  then show ?thesis
    by (simp add: run_def run_try_no_package)
next
  case True
  let ?c = "log_message cfg (ascii ''Checking for outdated packages...'') LogInfo s"
  have 1: "fst (run cfg (env\<lparr>npm_outdated := q\<rparr>) s) =
             (if errors s = [] \<and> errors (checkSecurityVulnerabilities cfg (npm_audit env) constructor) = []
              then 0 else 1)"
    using run_empty_report [of "env\<lparr>npm_outdated := q\<rparr>" cfg s] True assms
    by (simp add: getOutdatedPackages_failed)
  have 2: "fst (run cfg (env\<lparr>npm_outdated := Returned Blank\<rparr>) s) =
             (if errors s = [] \<and> errors (checkSecurityVulnerabilities cfg (npm_audit env) constructor) = []
              then 0 else 1)"
    using run_empty_report [of "env\<lparr>npm_outdated := Returned Blank\<rparr>" cfg s] True
    by (simp add: getOutdatedPackages_blank)
  show ?thesis
    by (simp only: 1 2)
qed

lemma run_audit_failed:
  assumes "audit_failed (npm_audit env)" "npm_outdated env = Returned Blank" "errors s = []"
  shows "fst (run cfg env s) = 0"
proof (cases "package_json_exists env")
  case False
  then show ?thesis
    by (simp add: run_def run_try_no_package)
next
  case True
  have "errors (checkSecurityVulnerabilities cfg (npm_audit env) constructor) = []"
    by (simp add: checkSecurityVulnerabilities_failed [OF assms(1)] Let_def constructor_def)
  then show ?thesis
    using run_empty_report [of env cfg s] True assms(2,3)
    by (simp add: getOutdatedPackages_blank)
qed

text \<open>
  C3 (as amended). A failure of the outdated query (\<open>execSync\<close> throws, or its output is
  not JSON) with \<open>ALLOW_NETWORK_FAILURE\<close> makes \<open>getOutdatedPackages\<close> return the
  empty report, so that the exit code of the run is the one of a run in which nothing is
  outdated; without \<open>ALLOW_NETWORK_FAILURE\<close> it makes the run exit with code 1, the
  last thing printed being the failure message on the error stream. A blank output of the
  outdated query is the empty report under either setting. A failure of the audit query
  (\<open>execSync\<close> throws, or its output is blank or not JSON) is never fatal: it adds no
  finding with \<open>ALLOW_NETWORK_FAILURE\<close> and the warning that the audit could not be
  made without it, and when nothing is outdated the exit code is 0 under either setting.
\<close>

theorem query_failure_policy:
  "(outdated_failed q \<and> ALLOW_NETWORK_FAILURE cfg \<longrightarrow>
      fst (getOutdatedPackages cfg q s) = Inr (JObject [])
    \<and> fst (run cfg (env\<lparr>npm_outdated := q\<rparr>) s)
        = fst (run cfg (env\<lparr>npm_outdated := Returned Blank\<rparr>) s))
   \<and> (outdated_failed q \<and> \<not> ALLOW_NETWORK_FAILURE cfg \<and> package_json_exists env \<longrightarrow>
      fst (run cfg (env\<lparr>npm_outdated := q\<rparr>) s) = 1
    \<and> last (console (snd (run cfg (env\<lparr>npm_outdated := q\<rparr>) s))) =
        (Stderr, cross_mark @ ascii '' Package freshness check failed: ''
                 @ ascii ''Failed to check package versions: '' @ failure_message q))
   \<and> fst (getOutdatedPackages cfg (Returned Blank) s) = Inr (JObject [])
   \<and> (audit_failed a \<longrightarrow>
      checkSecurityVulnerabilities cfg a s =
        (let s1 = log_message cfg (ascii ''Checking for security vulnerabilities...'') LogInfo s
         in if ALLOW_NETWORK_FAILURE cfg then s1
            else push_warning (ascii ''Could not check security vulnerabilities'') s1))
   \<and> (audit_failed a \<and> npm_outdated env = Returned Blank \<and> errors s = [] \<longrightarrow>
      fst (run cfg (env\<lparr>npm_audit := a\<rparr>) s) = 0)"
proof -
  have "fst (getOutdatedPackages cfg q s) = Inr (JObject [])"
    if "outdated_failed q" "ALLOW_NETWORK_FAILURE cfg"
    using that by (simp add: getOutdatedPackages_failed Let_def)
  moreover have "fst (run cfg (env\<lparr>npm_outdated := q\<rparr>) s) = 1
    \<and> last (console (snd (run cfg (env\<lparr>npm_outdated := q\<rparr>) s))) =
        (Stderr, cross_mark @ ascii '' Package freshness check failed: ''
                 @ ascii ''Failed to check package versions: '' @ failure_message q)"
    if "outdated_failed q" "\<not> ALLOW_NETWORK_FAILURE cfg" "package_json_exists env"
    using run_failed_strict [of "env\<lparr>npm_outdated := q\<rparr>" cfg s] that by simp
  moreover have "fst (run cfg (env\<lparr>npm_audit := a\<rparr>) s) = 0"
    if "audit_failed a" "npm_outdated env = Returned Blank" "errors s = []"
    using run_audit_failed [of "env\<lparr>npm_audit := a\<rparr>" s cfg] that by simp
  ultimately show ?thesis
    using run_failed_allowed [of q cfg env s]
    by (simp add: getOutdatedPackages_blank checkSecurityVulnerabilities_failed)
qed

theorem query_failure_policy_witness:
  "outdated_failed timed_out \<and> audit_failed timed_out
   \<and> ALLOW_NETWORK_FAILURE (CONFIG False) \<and> \<not> ALLOW_NETWORK_FAILURE strict_config
   \<and> package_json_exists quiet_environment
   \<and> npm_outdated quiet_environment = Returned Blank \<and> errors constructor = []
   \<and> fst (getOutdatedPackages (CONFIG False) timed_out constructor) = Inr (JObject [])
   \<and> fst (run strict_config (quiet_environment\<lparr>npm_outdated := timed_out\<rparr>) constructor) = 1
   \<and> warnings (checkSecurityVulnerabilities strict_config timed_out constructor)
       = [ascii ''Could not check security vulnerabilities'']
   \<and> fst (run strict_config (quiet_environment\<lparr>npm_audit := timed_out\<rparr>) constructor) = 0"
proof -
  have h: "outdated_failed timed_out" "audit_failed timed_out"
    "ALLOW_NETWORK_FAILURE (CONFIG False)" "\<not> ALLOW_NETWORK_FAILURE strict_config"
    "package_json_exists quiet_environment"
    "npm_outdated quiet_environment = Returned Blank" "errors constructor = []"
    by (simp_all add: timed_out_def CONFIG_def strict_config_def quiet_environment_def
        constructor_def)
  note allowed = query_failure_policy [of timed_out "CONFIG False" constructor quiet_environment
      timed_out]
  note strict = query_failure_policy [of timed_out strict_config constructor quiet_environment
      timed_out]
  have 1: "fst (getOutdatedPackages (CONFIG False) timed_out constructor) = Inr (JObject [])"
    using allowed h by blast
  have 2: "fst (run strict_config (quiet_environment\<lparr>npm_outdated := timed_out\<rparr>) constructor) = 1"
    using strict h by blast
  have 3: "checkSecurityVulnerabilities strict_config timed_out constructor =
        (let s1 = log_message strict_config (ascii ''Checking for security vulnerabilities...'')
                    LogInfo constructor
         in if ALLOW_NETWORK_FAILURE strict_config then s1
            else push_warning (ascii ''Could not check security vulnerabilities'') s1)"
    using strict h by blast
  have 4: "fst (run strict_config (quiet_environment\<lparr>npm_audit := timed_out\<rparr>) constructor) = 0"
    using strict h by blast
  have 5: "warnings (checkSecurityVulnerabilities strict_config timed_out constructor)
       = [ascii ''Could not check security vulnerabilities'']"
    unfolding 3 using h(4) by (simp add: Let_def constructor_def)
  from h 1 2 4 5 show ?thesis by simp
qed

text \<open>
  C3 as stated makes a failure of either query fatal without \<open>ALLOW_NETWORK_FAILURE\<close>:
  when the audit times out under the strict policy and nothing is outdated, the run exits
  with code 0.
\<close>

theorem audit_failure_not_fatal_counterexample:
  "fst (main strict_config (quiet_environment\<lparr>npm_audit := timed_out\<rparr>)) = 0"
proof -
  have "audit_failed (npm_audit (quiet_environment\<lparr>npm_audit := timed_out\<rparr>))"
    by (simp add: timed_out_def)
  moreover have "npm_outdated (quiet_environment\<lparr>npm_audit := timed_out\<rparr>) = Returned Blank"
    by (simp add: quiet_environment_def)
  moreover have "errors constructor = []"
    by (simp add: constructor_def)
  ultimately show ?thesis
    unfolding main_def by (rule run_audit_failed)
qed

subsection \<open>The verdict\<close>

lemma run_wellformed_report:
  assumes "package_json_exists env"
    and "npm_outdated env = Returned (Wellformed (JObject entries))"
    and "\<forall>e \<in> set entries. entry_finding e \<noteq> None"
  shows "fst (run cfg env s) = (if errors (snd (run cfg env s)) = [] then 0 else 1)"
    and "warnings (snd (run cfg env s)) =
           warnings (checkSecurityVulnerabilities cfg (npm_audit env) s)
           @ map finding_text
               (filter (\<lambda>f. policy (fst f) = Some Warning) (List.map_filter entry_finding entries))"
    and "errors (snd (run cfg env s)) =
           errors (checkSecurityVulnerabilities cfg (npm_audit env) s)
           @ map finding_text
               (filter (\<lambda>f. policy (fst f) = Some Blocking) (List.map_filter entry_finding entries))"
proof -
  let ?s1 = "log_message cfg (ascii ''Checking for outdated packages...'') LogInfo s"
  let ?s2 = "checkSecurityVulnerabilities cfg (npm_audit env) ?s1"
  have g: "getOutdatedPackages cfg (npm_outdated env) s = (Inr (JObject entries), ?s1)"
    by (simp add: assms(2) getOutdatedPackages_wellformed)
  define s3 where "s3 = snd (analyzeOutdatedPackages cfg (JObject entries) ?s2)"
  note f = analyzeOutdatedPackages_findings [OF assms(3), of cfg ?s2, folded s3_def]
  have a: "analyzeOutdatedPackages cfg (JObject entries) ?s2 = (Inr (), s3)"
    using f unfolding s3_def by (cases "analyzeOutdatedPackages cfg (JObject entries) ?s2") simp
  have w: "warnings s3 = warnings ?s2 @ map finding_text
               (filter (\<lambda>f. policy (fst f) = Some Warning) (List.map_filter entry_finding entries))"
    and e: "errors s3 = errors ?s2 @ map finding_text
               (filter (\<lambda>f. policy (fst f) = Some Blocking) (List.map_filter entry_finding entries))"
    using f by simp_all
  have r: "run cfg env s = report cfg s3"
    by (simp add: run_def run_try_returned [OF assms(1) g] a)
  have s2: "warnings ?s2 = warnings (checkSecurityVulnerabilities cfg (npm_audit env) s)"
    "errors ?s2 = errors (checkSecurityVulnerabilities cfg (npm_audit env) s)"
    using checkSecurityVulnerabilities_state(1) [of cfg "npm_audit env" ?s1 cfg]
      checkSecurityVulnerabilities_state(1) [of cfg "npm_audit env" s cfg]
      checkSecurityVulnerabilities_state(2) [of cfg "npm_audit env" ?s1]
      checkSecurityVulnerabilities_state(2) [of cfg "npm_audit env" s]
    by simp_all
  show "fst (run cfg env s) = (if errors (snd (run cfg env s)) = [] then 0 else 1)"
    by (simp add: r report_code)
  show "warnings (snd (run cfg env s)) =
           warnings (checkSecurityVulnerabilities cfg (npm_audit env) s)
           @ map finding_text
               (filter (\<lambda>f. policy (fst f) = Some Warning) (List.map_filter entry_finding entries))"
    by (simp add: r report_code w s2)
  show "errors (snd (run cfg env s)) =
           errors (checkSecurityVulnerabilities cfg (npm_audit env) s)
           @ map finding_text
               (filter (\<lambda>f. policy (fst f) = Some Blocking) (List.map_filter entry_finding entries))"
    by (simp add: r report_code e s2)
qed

lemma filter_map_filter_nonempty:
  assumes "e \<in> set entries" "entry_finding e = Some f" "P f"
  shows "filter P (List.map_filter entry_finding entries) \<noteq> []"
proof -
  have "f \<in> set (List.map_filter entry_finding entries)"
    using assms(1,2) by (force simp: List.map_filter_def)
  with assms(3) show ?thesis
    by (auto simp: filter_empty_conv)
qed

lemma filter_map_filter_empty:
  assumes "\<forall>e \<in> set entries. \<forall>f. entry_finding e = Some f \<longrightarrow> \<not> P f"
  shows "filter P (List.map_filter entry_finding entries) = []"
  using assms by (auto simp: filter_empty_conv List.map_filter_def)

subsection \<open>Exit codes\<close>

lemma run_try_returns:
  assumes "run_try cfg env s = (Inr code, s')"
  shows "code = 0 \<or> (code = 1 \<and> errors s' \<noteq> [])"
proof (cases "package_json_exists env")
  case False
  with assms show ?thesis
    by (auto simp: run_try_no_package)
next
  case True
  obtain first s1 where g: "getOutdatedPackages cfg (npm_outdated env) s = (first, s1)"
    by (cases "getOutdatedPackages cfg (npm_outdated env) s")
  show ?thesis
  proof (cases first)
    case (Inl e)
    with assms show ?thesis
      by (simp add: run_try_rejected [OF True g [unfolded Inl]])
  next
    case (Inr outdated)
    with assms show ?thesis
      by (auto simp: run_try_returned [OF True g [unfolded Inr]] report_code
          split: prod.splits sum.splits if_splits)
  qed
qed


lemma run_caught:
  assumes "isl (fst (run_try cfg env s))"
  shows "fst (run cfg env s) = (if ALLOW_NETWORK_FAILURE cfg then 0 else 1)"
  using assms by (cases "run_try cfg env s") (auto simp: run_def split: sum.splits)

lemma run_blocked:
  assumes "fst (run cfg env s) = 1" "ALLOW_NETWORK_FAILURE cfg"
  shows "errors (snd (run cfg env s)) \<noteq> []"
proof (cases "run_try cfg env s")
  case (Pair r s')
  show ?thesis
  proof (cases r)
    case (Inl e)
    with Pair assms show ?thesis
      by (simp add: run_def)
  next
    case (Inr code)
    with Pair assms run_try_returns [of cfg env s code s'] show ?thesis
      by (simp add: run_def)
  qed
qed

lemma entry_finding_missing_entry: "entry_finding (missing_entry name latest) = None"
proof -
  have "ascii ''wanted'' \<noteq> ascii ''current''" "ascii ''latest'' \<noteq> ascii ''current''"
    by (simp_all add: ascii_def)
  then show ?thesis
    by (simp add: entry_finding_def missing_entry_def getVersionDifference_def)
qed

lemma run_try_missing_entry:
  "isl (fst (run_try cfg (project (missing_entry name latest # entries) audit) s))"
proof -
  let ?env = "project (missing_entry name latest # entries) audit"
  let ?s1 = "log_message cfg (ascii ''Checking for outdated packages...'') LogInfo s"
  have g: "getOutdatedPackages cfg (npm_outdated ?env) s
             = (Inr (JObject (missing_entry name latest # entries)), ?s1)"
    by (simp add: project_def getOutdatedPackages_wellformed)
  have e: "package_json_exists ?env"
    by (simp add: project_def)
  have "isl (fst (analyzeEntries cfg (missing_entry name latest # entries) u))" for u
  proof -
    obtain err where "analyzeEntry cfg (missing_entry name latest) u = (Inl err, u)"
      using analyzeEntry_throws [OF entry_finding_missing_entry] by blast
    then show ?thesis
      by simp
  qed
  then have "isl (fst (analyzeOutdatedPackages cfg (JObject (missing_entry name latest # entries)) t))"
    for t
    by (simp add: analyzeOutdatedPackages_object)
  then obtain err s3 where
    "analyzeOutdatedPackages cfg (JObject (missing_entry name latest # entries))
       (checkSecurityVulnerabilities cfg (npm_audit ?env) ?s1) = (Inl err, s3)"
    by (metis isl_def prod.collapse)
  then show ?thesis
    by (simp add: run_try_returned [OF e g])
qed

text \<open>
  C10. With \<open>ALLOW_NETWORK_FAILURE\<close>, whatever error the \<open>try\<close> block of \<open>run\<close> throws,
  \<open>run\<close> returns exit code 0; and whenever \<open>run\<close> returns exit code 1, the checker
  holds a blocking finding.
\<close>

theorem top_level_catch_allows:
  assumes "ALLOW_NETWORK_FAILURE cfg"
  shows "(isl (fst (run_try cfg env s)) \<longrightarrow> fst (run cfg env s) = 0)
       \<and> (fst (run cfg env s) = 1 \<longrightarrow> errors (snd (run cfg env s)) \<noteq> [])"
  using assms run_caught [of cfg env s] run_blocked [of cfg env s] by simp

theorem top_level_catch_allows_witness:
  "ALLOW_NETWORK_FAILURE (CONFIG False)
   \<and> isl (fst (run_try (CONFIG False)
        (project [missing_entry ''left-pad'' ''1.3.0''] (audit_report [vulnerability ''lodash'' ''critical'']))
        constructor))
   \<and> fst (run (CONFIG False)
        (project [missing_entry ''left-pad'' ''1.3.0''] (audit_report [vulnerability ''lodash'' ''critical'']))
        constructor) = 0
   \<and> fst (run (CONFIG False)
        (project [outdated_entry ''b'' ''1.2.3'' ''1.2.4''] (audit_report [])) constructor) = 1
   \<and> errors (snd (run (CONFIG False)
        (project [outdated_entry ''b'' ''1.2.3'' ''1.2.4''] (audit_report [])) constructor)) \<noteq> []"
proof -
  let ?e1 = "project [missing_entry ''left-pad'' ''1.3.0'']
               (audit_report [vulnerability ''lodash'' ''critical''])"
  let ?e2 = "project [outdated_entry ''b'' ''1.2.3'' ''1.2.4''] (audit_report [])"
  have a: "ALLOW_NETWORK_FAILURE (CONFIG False)"
    by (simp add: CONFIG_def)
  have t: "isl (fst (run_try (CONFIG False) ?e1 constructor))"
    by (rule run_try_missing_entry)
  have d: "entry_finding (outdated_entry ''b'' ''1.2.3'' ''1.2.4'')
             = Some (Patch, entry_message (ascii ''b'') (Some (JString (ascii ''1.2.3'')))
                              (Some (JString (ascii ''1.2.4''))) Patch)"
    by (simp add: entry_finding_outdated_entry getVersionDifference_strings match_version_def
        literal_simps)
  have "errors (snd (run (CONFIG False) ?e2 constructor)) \<noteq> []"
    using run_wellformed_report(3) [of ?e2 "[outdated_entry ''b'' ''1.2.3'' ''1.2.4'']"
        "CONFIG False" constructor]
    by (simp add: project_def d)
  then have c: "fst (run (CONFIG False) ?e2 constructor) = 1"
    using run_wellformed_report(1) [of ?e2 "[outdated_entry ''b'' ''1.2.3'' ''1.2.4'']"
        "CONFIG False" constructor]
    by (simp add: project_def d)
  from top_level_catch_allows [OF a, of ?e1 constructor] t
  have 1: "fst (run (CONFIG False) ?e1 constructor) = 0"
    by blast
  from top_level_catch_allows [OF a, of ?e2 constructor] c
  have 2: "errors (snd (run (CONFIG False) ?e2 constructor)) \<noteq> []"
    by blast
  from a t c 1 2 show ?thesis
    by simp
qed



subsection \<open>Console output of the report\<close>

lemma print_each_console:
  "print_each xs s = s\<lparr>console := console s @ map (Pair Stdout) xs\<rparr>"
  unfolding print_each_def
  by (induction xs arbitrary: s) (simp_all add: console_log_def)

lemma report_failed:
  assumes "errors s \<noteq> []"
  shows "report cfg s = (1, s\<lparr>console := console s @ map (Pair Stdout) (failed_block (errors s))\<rparr>)"
  using assms
  by (simp add: report_def Let_def failed_block_def console_log_def print_each_console)

lemma report_warned:
  assumes "errors s = []" "warnings s \<noteq> []"
  shows "report cfg s =
           (0, s\<lparr>console := console s @ map (Pair Stdout) (warnings_block (warnings s))\<rparr>)"
  using assms
  by (simp add: report_def Let_def warnings_block_def console_log_def print_each_console)

lemma report_passed:
  assumes "errors s = []" "warnings s = []"
  shows "report cfg s =
           (0, if VERBOSE cfg then s\<lparr>console := console s @ [(Stdout, confirmation_line)]\<rparr>
               else s)"
  using assms
  by (simp add: report_def Let_def confirmation_line_def console_log_def log_message_def)

lemma run_blocked_report:
  assumes "fst (run cfg env s) = 1" "ALLOW_NETWORK_FAILURE cfg"
  shows "\<exists>s3. errors s3 \<noteq> [] \<and> run cfg env s = report cfg s3"
proof (cases "package_json_exists env")
  case False
  with assms show ?thesis
    by (simp add: run_def run_try_no_package)
next
  case True
  obtain first s1 where g: "getOutdatedPackages cfg (npm_outdated env) s = (first, s1)"
    by (cases "getOutdatedPackages cfg (npm_outdated env) s")
  show ?thesis
  proof (cases first)
    case (Inl e)
    with assms show ?thesis
      by (simp add: run_def run_try_rejected [OF True g [unfolded Inl]])
  next
    case (Inr outdated)
    let ?a = "analyzeOutdatedPackages cfg outdated
                (checkSecurityVulnerabilities cfg (npm_audit env) s1)"
    obtain r s3 where a: "?a = (r, s3)"
      by (cases ?a)
    show ?thesis
    proof (cases r)
      case (Inl e)
      with assms a show ?thesis
        by (simp add: run_def run_try_returned [OF True g [unfolded Inr]])
    next
      case (Inr u)
      with a have r: "run cfg env s = report cfg s3"
        by (simp add: run_def run_try_returned [OF True g [unfolded \<open>first = Inr outdated\<close>]])
      with assms(1) have "errors s3 \<noteq> []"
        by (auto simp: report_code split: if_splits)
      with r show ?thesis
        by blast
    qed
  qed
qed

text \<open>
  C8 (as amended). The report of a checker with blocking findings prints the labelled
  FAILED block, which lists the blocking findings in their order between its heading and
  two lines of advice, prints no warning, and gives exit code 1. The report of a checker
  with warnings only prints the labelled block of the warnings in their order and gives
  exit code 0. The report of a checker with no finding prints the confirmation line when
  \<open>VERBOSE\<close> is set and nothing otherwise. With \<open>ALLOW_NETWORK_FAILURE\<close>, every run
  with exit code 1 ends with the report of a checker with blocking findings. So no run
  prints both the blocking findings and the warnings.
\<close>

theorem report_output:
  "(errors s \<noteq> [] \<longrightarrow>
      report cfg s = (1, s\<lparr>console := console s @ map (Pair Stdout) (failed_block (errors s))\<rparr>))
   \<and> (errors s = [] \<and> warnings s \<noteq> [] \<longrightarrow>
      report cfg s =
        (0, s\<lparr>console := console s @ map (Pair Stdout) (warnings_block (warnings s))\<rparr>))
   \<and> (errors s = [] \<and> warnings s = [] \<longrightarrow>
      report cfg s =
        (0, if VERBOSE cfg then s\<lparr>console := console s @ [(Stdout, confirmation_line)]\<rparr>
            else s))
   \<and> (ALLOW_NETWORK_FAILURE cfg \<and> fst (run cfg env s) = 1 \<longrightarrow>
      (\<exists>s3. errors s3 \<noteq> [] \<and> run cfg env s = report cfg s3))"
  using report_failed [of s cfg] report_warned [of s cfg] report_passed [of s cfg]
    run_blocked_report [of cfg env s]
  by blast

theorem report_output_witness:
  "errors \<lparr>warnings = [ascii ''Could not check security vulnerabilities''],
           errors = [vulnerabilities_message 1], console = []\<rparr> \<noteq> []
   \<and> report strict_config
        \<lparr>warnings = [ascii ''Could not check security vulnerabilities''],
         errors = [vulnerabilities_message 1], console = []\<rparr>
       = (1, \<lparr>warnings = [ascii ''Could not check security vulnerabilities''],
              errors = [vulnerabilities_message 1],
              console = map (Pair Stdout) (failed_block [vulnerabilities_message 1])\<rparr>)
   \<and> report strict_config
        \<lparr>warnings = [ascii ''Could not check security vulnerabilities''], errors = [],
         console = []\<rparr>
       = (0, \<lparr>warnings = [ascii ''Could not check security vulnerabilities''], errors = [],
              console = map (Pair Stdout)
                (warnings_block [ascii ''Could not check security vulnerabilities''])\<rparr>)
   \<and> report (CONFIG False) constructor
       = (0, \<lparr>warnings = [], errors = [], console = [(Stdout, confirmation_line)]\<rparr>)
   \<and> report (CONFIG True) constructor = (0, constructor)
   \<and> ALLOW_NETWORK_FAILURE (CONFIG True)
   \<and> fst (run (CONFIG True) (project [outdated_entry ''b'' ''1.2.3'' ''1.2.4''] (audit_report []))
        constructor) = 1
   \<and> (\<exists>s3. errors s3 \<noteq> []
        \<and> run (CONFIG True) (project [outdated_entry ''b'' ''1.2.3'' ''1.2.4''] (audit_report []))
            constructor = report (CONFIG True) s3)"
proof -
  let ?w = "ascii ''Could not check security vulnerabilities''"
  let ?e = "vulnerabilities_message 1"
  let ?env = "project [outdated_entry ''b'' ''1.2.3'' ''1.2.4''] (audit_report [])"
  have 1: "report strict_config \<lparr>warnings = [?w], errors = [?e], console = []\<rparr>
       = (1, \<lparr>warnings = [?w], errors = [?e],
              console = map (Pair Stdout) (failed_block [?e])\<rparr>)"
    using report_output [of "\<lparr>warnings = [?w], errors = [?e], console = []\<rparr>" strict_config]
    by simp
  have 2: "report strict_config \<lparr>warnings = [?w], errors = [], console = []\<rparr>
       = (0, \<lparr>warnings = [?w], errors = [], console = map (Pair Stdout) (warnings_block [?w])\<rparr>)"
    using report_output [of "\<lparr>warnings = [?w], errors = [], console = []\<rparr>" strict_config]
    by simp
  have 3: "report (CONFIG False) constructor
       = (0, \<lparr>warnings = [], errors = [], console = [(Stdout, confirmation_line)]\<rparr>)"
    using report_output [of constructor "CONFIG False"]
    by (simp add: constructor_def CONFIG_def)
  have 4: "report (CONFIG True) constructor = (0, constructor)"
    using report_output [of constructor "CONFIG True"]
    by (simp add: constructor_def CONFIG_def)
  have a: "ALLOW_NETWORK_FAILURE (CONFIG True)"
    by (simp add: CONFIG_def)
  have d: "entry_finding (outdated_entry ''b'' ''1.2.3'' ''1.2.4'')
             = Some (Patch, entry_message (ascii ''b'') (Some (JString (ascii ''1.2.3'')))
                              (Some (JString (ascii ''1.2.4''))) Patch)"
    by (simp add: entry_finding_outdated_entry getVersionDifference_strings match_version_def
        literal_simps)
  have "errors (snd (run (CONFIG True) ?env constructor)) \<noteq> []"
    using run_wellformed_report(3) [of ?env "[outdated_entry ''b'' ''1.2.3'' ''1.2.4'']"
        "CONFIG True" constructor]
    by (simp add: project_def d)
  then have c: "fst (run (CONFIG True) ?env constructor) = 1"
    using run_wellformed_report(1) [of ?env "[outdated_entry ''b'' ''1.2.3'' ''1.2.4'']"
        "CONFIG True" constructor]
    by (simp add: project_def d)
  have 5: "\<exists>s3. errors s3 \<noteq> [] \<and> run (CONFIG True) ?env constructor = report (CONFIG True) s3"
    using report_output [of constructor "CONFIG True" ?env] a c
    by blast
  from 1 2 3 4 a c 5 show ?thesis
    by simp
qed

text \<open>
  C8 as stated has a confirmation line printed on every run with no finding: with
  \<open>CI=true\<close> a run in a project where nothing is outdated and the audit is empty ends
  with exit code 0 and has printed nothing.
\<close>

theorem silent_success_counterexample:
  "main (CONFIG True) quiet_environment = (0, constructor)"
  by (simp add: main_def run_def run_try_def checkPackageExists_def quiet_environment_def
      getOutdatedPackages_def getOutdatedPackages_try_def checkSecurityVulnerabilities_def
      checkSecurityVulnerabilities_try_def analyzeOutdatedPackages_def Object_keys_def
      report_def log_message_def CONFIG_def constructor_def Let_def)

subsection \<open>Findings are appended\<close>

lemma constructor_fields [simp]:
  "warnings constructor = []" "errors constructor = []" "console constructor = []"
  by (simp_all add: constructor_def)

lemma analyzeEntry_state:
  "fst (analyzeEntry cfg entry s) = fst (analyzeEntry cfg' entry constructor)
   \<and> warnings (snd (analyzeEntry cfg entry s))
       = warnings s @ warnings (snd (analyzeEntry cfg' entry constructor))
   \<and> errors (snd (analyzeEntry cfg entry s))
       = errors s @ errors (snd (analyzeEntry cfg' entry constructor))"
proof (cases "entry_finding entry")
  case None
  obtain e where e: "analyzeEntry cfg entry s = (Inl e, s)"
    using analyzeEntry_throws [OF None] by blast
  obtain e' where e': "analyzeEntry cfg' entry constructor = (Inl e', constructor)"
    using analyzeEntry_throws [OF None] by blast
  have "fst (analyzeEntry cfg entry s) = fst (analyzeEntry cfg' entry constructor)"
    by (cases entry) (simp add: analyzeEntry_def Let_def split: sum.splits)
  then show ?thesis
    by (simp add: e e')
next
  case (Some f)
  show ?thesis
    using analyzeEntry_finding(1-3) [OF Some, of cfg s]
      analyzeEntry_finding(1-3) [OF Some, of cfg' constructor]
    by simp
qed

lemma analyzeEntries_state:
  "fst (analyzeEntries cfg entries s) = fst (analyzeEntries cfg' entries constructor)
   \<and> warnings (snd (analyzeEntries cfg entries s))
       = warnings s @ warnings (snd (analyzeEntries cfg' entries constructor))
   \<and> errors (snd (analyzeEntries cfg entries s))
       = errors s @ errors (snd (analyzeEntries cfg' entries constructor))"
proof (induction entries arbitrary: s cfg)
  case Nil
  show ?case by simp
next
  case (Cons entry rest)
  obtain r s1 where 1: "analyzeEntry cfg entry s = (r, s1)"
    by (cases "analyzeEntry cfg entry s")
  obtain r' s1' where 2: "analyzeEntry cfg' entry constructor = (r', s1')"
    by (cases "analyzeEntry cfg' entry constructor")
  have r: "r = r'" and w: "warnings s1 = warnings s @ warnings s1'"
    and e: "errors s1 = errors s @ errors s1'"
    using analyzeEntry_state [of cfg entry s cfg'] by (simp_all add: 1 2)
  show ?case
  proof (cases r)
    case (Inl err)
    then show ?thesis
      using r w e by (simp add: 1 2)
  next
    case (Inr u)
    then show ?thesis
      using r Cons.IH [of cfg s1] Cons.IH [of cfg' s1'] w e by (simp add: 1 2)
  qed
qed

lemma analyzeOutdatedPackages_state:
  "fst (analyzeOutdatedPackages cfg outdated s)
     = fst (analyzeOutdatedPackages cfg' outdated constructor)
   \<and> warnings (snd (analyzeOutdatedPackages cfg outdated s))
       = warnings s @ warnings (snd (analyzeOutdatedPackages cfg' outdated constructor))
   \<and> errors (snd (analyzeOutdatedPackages cfg outdated s))
       = errors s @ errors (snd (analyzeOutdatedPackages cfg' outdated constructor))"
proof (cases "Object_entries outdated")
  case (Inl err)
  then show ?thesis
    by (simp add: analyzeOutdatedPackages_def Object_keys_def)
next
  case (Inr entries)
  let ?found = "ascii ''Found '' @ string_of_nat (length entries) @ ascii '' outdated packages:''"
  show ?thesis
  proof (cases "entries = []")
    case True
    with Inr show ?thesis
      by (simp add: analyzeOutdatedPackages_def Object_keys_def)
  next
    case False
    have a: "analyzeOutdatedPackages c outdated t
               = analyzeEntries c entries (log_message c ?found LogInfo t)" for c t
      using Inr False by (simp add: analyzeOutdatedPackages_def Object_keys_def Let_def)
    show ?thesis
      unfolding a
      using analyzeEntries_state [of cfg entries "log_message cfg ?found LogInfo s" cfg']
        analyzeEntries_state [of cfg' entries "log_message cfg' ?found LogInfo constructor" cfg']
      by simp
  qed
qed

lemma getOutdatedPackages_result:
  "fst (getOutdatedPackages cfg query s) = fst (getOutdatedPackages cfg query s')"
  by (simp add: getOutdatedPackages_def getOutdatedPackages_try_def Let_def
      split: exec_result.splits sum.splits stdout_text.splits)

lemma run_state:
  "warnings (snd (run cfg env s)) = warnings s @ warnings (snd (run cfg env constructor))
   \<and> errors (snd (run cfg env s)) = errors s @ errors (snd (run cfg env constructor))
   \<and> fst (run cfg env (s\<lparr>errors := []\<rparr>)) = fst (run cfg env constructor)"
proof (cases "package_json_exists env")
  case False
  then show ?thesis
    by (simp add: run_def run_try_no_package)
next
  case True
  have main: "warnings (snd (run cfg env t)) = warnings t @ warnings (snd (run cfg env constructor))
     \<and> errors (snd (run cfg env t)) = errors t @ errors (snd (run cfg env constructor))
     \<and> (errors t = [] \<longrightarrow> fst (run cfg env t) = fst (run cfg env constructor))" for t
  proof -
    obtain first s1 where g: "getOutdatedPackages cfg (npm_outdated env) t = (first, s1)"
      by (cases "getOutdatedPackages cfg (npm_outdated env) t")
    obtain first0 s10 where g0: "getOutdatedPackages cfg (npm_outdated env) constructor = (first0, s10)"
      by (cases "getOutdatedPackages cfg (npm_outdated env) constructor")
    have f: "first0 = first"
      using getOutdatedPackages_result [of cfg "npm_outdated env" t constructor]
      by (simp add: g g0)
    have s1: "warnings s1 = warnings t" "errors s1 = errors t"
      using getOutdatedPackages_fields [of cfg "npm_outdated env" t] by (simp_all add: g)
    have s10: "warnings s10 = []" "errors s10 = []"
      using getOutdatedPackages_fields [of cfg "npm_outdated env" constructor]
      by (simp_all add: g0)
    let ?c = "checkSecurityVulnerabilities cfg (npm_audit env) s1"
    let ?d = "checkSecurityVulnerabilities cfg (npm_audit env) s10"
    let ?fresh = "checkSecurityVulnerabilities cfg (npm_audit env) constructor"
    have "warnings ?c = warnings t @ warnings ?fresh" "errors ?c = errors t @ errors ?fresh"
      using checkSecurityVulnerabilities_state(1) [of cfg "npm_audit env" s1 cfg]
        checkSecurityVulnerabilities_state(2) [of cfg "npm_audit env" s1]
      by (simp_all only: s1)
    moreover have "warnings ?d = warnings ?fresh" "errors ?d = errors ?fresh"
      using checkSecurityVulnerabilities_state(1) [of cfg "npm_audit env" s10 cfg]
        checkSecurityVulnerabilities_state(2) [of cfg "npm_audit env" s10]
      by (simp_all only: s10 append_Nil)
    ultimately have c: "warnings ?c = warnings t @ warnings ?d"
      "errors ?c = errors t @ errors ?d"
      by (simp_all only:)
    show ?thesis
    proof (cases first)
      case (Inl err)
      show ?thesis
        using c
        by (simp add: run_def run_try_rejected [OF True g [unfolded Inl]]
            run_try_rejected [OF True g0 [unfolded f Inl]])
    next
      case (Inr outdated)
      obtain r s3 where a: "analyzeOutdatedPackages cfg outdated ?c = (r, s3)"
        by (cases "analyzeOutdatedPackages cfg outdated ?c")
      obtain r0 s30 where a0: "analyzeOutdatedPackages cfg outdated ?d = (r0, s30)"
        by (cases "analyzeOutdatedPackages cfg outdated ?d")
      have r: "r0 = r"
        using analyzeOutdatedPackages_state [of cfg outdated ?c cfg]
          analyzeOutdatedPackages_state [of cfg outdated ?d cfg]
        by (simp add: a a0)
      have s3: "warnings s3 = warnings t @ warnings s30" "errors s3 = errors t @ errors s30"
        using analyzeOutdatedPackages_state [of cfg outdated ?c cfg]
          analyzeOutdatedPackages_state [of cfg outdated ?d cfg] c
        by (simp_all add: a a0)
      show ?thesis
        using s3
        by (cases r)
           (simp_all add: run_def run_try_returned [OF True g [unfolded Inr]]
              run_try_returned [OF True g0 [unfolded f Inr]] a a0 r report_code)
    qed
  qed
  have "fst (run cfg env (s\<lparr>errors := []\<rparr>)) = fst (run cfg env constructor)"
    using main [of "s\<lparr>errors := []\<rparr>"] by simp
  with main [of s] show ?thesis
    by simp
qed

text \<open>
  C9 (as amended). The findings an aggregation adds depend on its input only, and the
  checker changes by having them appended: the analysis of a report on a checker that
  holds warnings and errors yields these followed by the warnings and errors that the
  analysis of the same report yields on a freshly constructed checker, under whatever
  verbosity, and it throws on the one exactly when it throws on the other. The same
  holds for a whole run, whose exit code on a checker without blocking findings is its
  exit code on a freshly constructed checker. Hence two aggregations of the same input
  on freshly constructed checkers give the same verdict, and a second aggregation on
  the same checker holds every finding twice.
\<close>

theorem aggregation_appends:
  "fst (analyzeOutdatedPackages cfg outdated s)
     = fst (analyzeOutdatedPackages cfg' outdated constructor)
   \<and> warnings (snd (analyzeOutdatedPackages cfg outdated s))
       = warnings s @ warnings (snd (analyzeOutdatedPackages cfg' outdated constructor))
   \<and> errors (snd (analyzeOutdatedPackages cfg outdated s))
       = errors s @ errors (snd (analyzeOutdatedPackages cfg' outdated constructor))
   \<and> warnings (snd (run cfg env s)) = warnings s @ warnings (snd (main cfg env))
   \<and> errors (snd (run cfg env s)) = errors s @ errors (snd (main cfg env))
   \<and> fst (run cfg env (s\<lparr>errors := []\<rparr>)) = fst (main cfg env)"
  using analyzeOutdatedPackages_state [of cfg outdated s cfg'] run_state [of cfg env s]
  by (simp add: main_def)

text \<open>
  C9 as stated has a second aggregation of the same report give the same verdict: on the
  checker that has analysed a report with one major update, the analysis of the same
  report gives other warnings than the first one gave.
\<close>

theorem second_aggregation_counterexample:
  "warnings (snd (analyzeOutdatedPackages (CONFIG False)
       (JObject [outdated_entry ''a'' ''1.2.3'' ''2.0.0''])
       (snd (analyzeOutdatedPackages (CONFIG False)
          (JObject [outdated_entry ''a'' ''1.2.3'' ''2.0.0'']) constructor))))
   \<noteq> warnings (snd (analyzeOutdatedPackages (CONFIG False)
       (JObject [outdated_entry ''a'' ''1.2.3'' ''2.0.0'']) constructor))"
proof -
  let ?r = "JObject [outdated_entry ''a'' ''1.2.3'' ''2.0.0'']"
  have d: "entry_finding (outdated_entry ''a'' ''1.2.3'' ''2.0.0'')
             = Some (Major, entry_message (ascii ''a'') (Some (JString (ascii ''1.2.3'')))
                              (Some (JString (ascii ''2.0.0''))) Major)"
    by (simp add: entry_finding_outdated_entry getVersionDifference_strings match_version_def
        literal_simps)
  then have wf: "\<forall>e \<in> set [outdated_entry ''a'' ''1.2.3'' ''2.0.0'']. entry_finding e \<noteq> None"
    by simp
  have "length (warnings (snd (analyzeOutdatedPackages (CONFIG False) ?r t)))
          = Suc (length (warnings t))" for t
    using analyzeOutdatedPackages_findings [OF wf, of "CONFIG False" t] by (simp add: d)
  then show ?thesis
    by (metis n_not_Suc_n)
qed

lemma analyzeOutdatedPackages_stops:
  assumes "entry_finding e1 = Some f" "entry_finding e2 = None"
  shows "\<exists>err s3. analyzeOutdatedPackages cfg (JObject (e1 # e2 # rest)) s = (Inl err, s3)
           \<and> errors s3 = errors s @ (if policy (fst f) = Some Blocking then [finding_text f] else [])"
proof -
  define t where "t = log_message cfg
      (ascii ''Found '' @ string_of_nat (length (e1 # e2 # rest)) @ ascii '' outdated packages:'')
      LogInfo s"
  have a: "analyzeOutdatedPackages cfg (JObject (e1 # e2 # rest)) s
             = analyzeEntries cfg (e1 # e2 # rest) t"
    by (simp add: analyzeOutdatedPackages_object t_def)
  have t: "errors t = errors s"
    by (simp add: t_def)
  obtain s3 where b: "analyzeEntry cfg e1 t = (Inr (), s3)"
    using analyzeEntry_finding(1) [OF assms(1), of cfg t] by (cases "analyzeEntry cfg e1 t") auto
  have s3: "errors s3 = errors s @ (if policy (fst f) = Some Blocking then [finding_text f] else [])"
    using analyzeEntry_finding(3) [OF assms(1), of cfg t] by (simp add: b t)
  obtain err where m: "analyzeEntry cfg e2 s3 = (Inl err, s3)"
    using analyzeEntry_throws [OF assms(2)] by blast
  have "analyzeEntries cfg (e1 # e2 # rest) t = (Inl err, s3)"
    by (simp add: b m)
  with a s3 show ?thesis
    by simp
qed

subsection \<open>Exit code of a run\<close>

text \<open>
  C1 (as amended). The report at the end of a run returns exit code 1 when the checker
  holds a blocking finding and 0 otherwise, however many there are, and so does every
  run that reaches a \<open>return\<close> of its \<open>try\<close> block; a run whose \<open>try\<close> block
  throws returns 0 with \<open>ALLOW_NETWORK_FAILURE\<close> and 1 without it, whatever findings
  the checker holds. A run on a report of entries with two version strings each, one of
  them with a patch delta, exits with code 1. A run on a non-empty report of such entries
  with major and minor deltas only, whose audit records no blocking finding, exits with
  code 0 and holds a warning.
\<close>

theorem exit_code_by_blocking_findings:
  "fst (report cfg s) = (if errors s = [] then 0 else 1)
   \<and> (\<forall>code s'. run_try cfg env constructor = (Inr code, s') \<longrightarrow>
         code = (if errors s' = [] then 0 else 1))
   \<and> (isl (fst (run_try cfg env s)) \<longrightarrow>
         fst (run cfg env s) = (if ALLOW_NETWORK_FAILURE cfg then 0 else 1))
   \<and> (package_json_exists env
      \<and> npm_outdated env = Returned (Wellformed (JObject entries))
      \<and> (\<forall>e \<in> set entries. entry_finding e \<noteq> None)
      \<and> (\<exists>e \<in> set entries. map_option fst (entry_finding e) = Some Patch)
      \<longrightarrow> fst (main cfg env) = 1)
   \<and> (package_json_exists env
      \<and> npm_outdated env = Returned (Wellformed (JObject entries))
      \<and> entries \<noteq> []
      \<and> (\<forall>e \<in> set entries. map_option fst (entry_finding e) = Some Major
                           \<or> map_option fst (entry_finding e) = Some Minor)
      \<and> errors (checkSecurityVulnerabilities cfg (npm_audit env) constructor) = []
      \<longrightarrow> fst (main cfg env) = 0 \<and> warnings (snd (main cfg env)) \<noteq> [])"
proof -
  have a: "fst (report cfg s) = (if errors s = [] then 0 else 1)"
    by (rule report_code)
  have b: "code = (if errors s' = [] then 0 else 1)"
    if "run_try cfg env constructor = (Inr code, s')" for code s'
  proof (cases "package_json_exists env")
    case False
    with that show ?thesis
      by (auto simp: run_try_no_package constructor_def)
  next
    case True
    obtain first s1 where g: "getOutdatedPackages cfg (npm_outdated env) constructor = (first, s1)"
      by (cases "getOutdatedPackages cfg (npm_outdated env) constructor")
    show ?thesis
    proof (cases first)
      case (Inl e)
      with that show ?thesis
        by (simp add: run_try_rejected [OF True g [unfolded Inl]])
    next
      case (Inr outdated)
      with that show ?thesis
        by (auto simp: run_try_returned [OF True g [unfolded Inr]] report_code
            split: prod.splits sum.splits)
    qed
  qed
  have c: "fst (main cfg env) = 1"
    if "package_json_exists env" "npm_outdated env = Returned (Wellformed (JObject entries))"
      "\<forall>e \<in> set entries. entry_finding e \<noteq> None"
      "\<exists>e \<in> set entries. map_option fst (entry_finding e) = Some Patch"
  proof -
    from that(4) obtain e f where "e \<in> set entries" "entry_finding e = Some f" "fst f = Patch"
      by auto
    then have "filter (\<lambda>f. policy (fst f) = Some Blocking) (List.map_filter entry_finding entries) \<noteq> []"
      by (intro filter_map_filter_nonempty [of e entries f]) simp_all
    then show ?thesis
      using run_wellformed_report [OF that(1-3), of cfg constructor]
      by (simp add: main_def)
  qed
  have d: "fst (main cfg env) = 0 \<and> warnings (snd (main cfg env)) \<noteq> []"
    if "package_json_exists env" "npm_outdated env = Returned (Wellformed (JObject entries))"
      "entries \<noteq> []"
      "\<forall>e \<in> set entries. map_option fst (entry_finding e) = Some Major
                           \<or> map_option fst (entry_finding e) = Some Minor"
      "errors (checkSecurityVulnerabilities cfg (npm_audit env) constructor) = []"
  proof -
    have wf: "\<forall>e \<in> set entries. entry_finding e \<noteq> None"
      using that(4) by auto
    have none: "filter (\<lambda>f. policy (fst f) = Some Blocking) (List.map_filter entry_finding entries) = []"
      using that(4) by (intro filter_map_filter_empty) auto
    from that(3) obtain e where e: "e \<in> set entries"
      by (cases entries) auto
    with that(4) obtain f where "entry_finding e = Some f" "policy (fst f) = Some Warning"
      by auto
    with e have some: "filter (\<lambda>f. policy (fst f) = Some Warning) (List.map_filter entry_finding entries) \<noteq> []"
      by (intro filter_map_filter_nonempty [of e entries f]) simp_all
    show ?thesis
      using run_wellformed_report [OF that(1,2) wf, of cfg constructor] none some that(5)
      by (simp add: main_def)
  qed
  from a b c d run_caught [of cfg env s] show ?thesis
    by blast
qed

theorem exit_code_by_blocking_findings_witness:
  "package_json_exists
     (project [outdated_entry ''a'' ''1.2.3'' ''2.0.0'', outdated_entry ''b'' ''1.2.3'' ''1.2.4'']
        (audit_report []))
   \<and> list_all (\<lambda>e. entry_finding e \<noteq> None)
        [outdated_entry ''a'' ''1.2.3'' ''2.0.0'', outdated_entry ''b'' ''1.2.3'' ''1.2.4'']
   \<and> list_ex (\<lambda>e. map_option fst (entry_finding e) = Some Patch)
        [outdated_entry ''a'' ''1.2.3'' ''2.0.0'', outdated_entry ''b'' ''1.2.3'' ''1.2.4'']
   \<and> fst (main (CONFIG False)
        (project [outdated_entry ''a'' ''1.2.3'' ''2.0.0'', outdated_entry ''b'' ''1.2.3'' ''1.2.4'']
           (audit_report []))) = 1
   \<and> list_all (\<lambda>e. map_option fst (entry_finding e) = Some Major
                  \<or> map_option fst (entry_finding e) = Some Minor)
        [outdated_entry ''a'' ''1.2.3'' ''2.0.0'', outdated_entry ''e'' ''1.2.3'' ''1.3.0'']
   \<and> errors (checkSecurityVulnerabilities (CONFIG False) (audit_report []) constructor) = []
   \<and> fst (main (CONFIG False)
        (project [outdated_entry ''a'' ''1.2.3'' ''2.0.0'', outdated_entry ''e'' ''1.2.3'' ''1.3.0'']
           (audit_report []))) = 0
   \<and> warnings (snd (main (CONFIG False)
        (project [outdated_entry ''a'' ''1.2.3'' ''2.0.0'', outdated_entry ''e'' ''1.2.3'' ''1.3.0'']
           (audit_report [])))) \<noteq> []
   \<and> (\<exists>s'. run_try (CONFIG False)
              (project [outdated_entry ''a'' ''1.2.3'' ''2.0.0'',
                        outdated_entry ''b'' ''1.2.3'' ''1.2.4''] (audit_report []))
              constructor = (Inr 1, s') \<and> errors s' \<noteq> [])
   \<and> isl (fst (run_try (CONFIG False)
        (project [missing_entry ''left-pad'' ''1.3.0''] (audit_report [])) constructor))
   \<and> fst (run (CONFIG False)
        (project [missing_entry ''left-pad'' ''1.3.0''] (audit_report [])) constructor) = 0"
proof -
  let ?p = "[outdated_entry ''a'' ''1.2.3'' ''2.0.0'', outdated_entry ''b'' ''1.2.3'' ''1.2.4'']"
  let ?m = "[outdated_entry ''a'' ''1.2.3'' ''2.0.0'', outdated_entry ''e'' ''1.2.3'' ''1.3.0'']"
  have dp: "map (map_option fst \<circ> entry_finding) ?p = [Some Major, Some Patch]"
    and dm: "map (map_option fst \<circ> entry_finding) ?m = [Some Major, Some Minor]"
    by (simp_all add: entry_finding_outdated_entry getVersionDifference_strings match_version_def
        literal_simps)
  have env: "package_json_exists (project ?p (audit_report []))"
    "npm_outdated (project ?p (audit_report [])) = Returned (Wellformed (JObject ?p))"
    "package_json_exists (project ?m (audit_report []))"
    "npm_outdated (project ?m (audit_report [])) = Returned (Wellformed (JObject ?m))"
    "npm_audit (project ?m (audit_report [])) = audit_report []"
    by (simp_all add: project_def)
  have audit: "errors (checkSecurityVulnerabilities (CONFIG False) (audit_report []) constructor) = []"
    by (simp add: checkSecurityVulnerabilities_report Let_def constructor_def)
  have hp: "\<forall>e \<in> set ?p. entry_finding e \<noteq> None"
    "\<exists>e \<in> set ?p. map_option fst (entry_finding e) = Some Patch"
    using dp by auto
  have hm: "?m \<noteq> []"
    "\<forall>e \<in> set ?m. map_option fst (entry_finding e) = Some Major
         \<or> map_option fst (entry_finding e) = Some Minor"
    using dm by auto
  have 1: "fst (main (CONFIG False) (project ?p (audit_report []))) = 1"
    using exit_code_by_blocking_findings [of "CONFIG False" constructor
        "project ?p (audit_report [])" ?p] env(1,2) hp
    by blast
  have 2: "fst (main (CONFIG False) (project ?m (audit_report []))) = 0
         \<and> warnings (snd (main (CONFIG False) (project ?m (audit_report [])))) \<noteq> []"
    using exit_code_by_blocking_findings [of "CONFIG False" constructor
        "project ?m (audit_report [])" ?m] env(3,4) hm audit
    unfolding env(5) by blast
  obtain r s' where rt: "run_try (CONFIG False) (project ?p (audit_report [])) constructor = (r, s')"
    by (cases "run_try (CONFIG False) (project ?p (audit_report [])) constructor")
  have r: "r = Inr 1"
    using 1 rt by (cases r) (simp_all add: main_def run_def CONFIG_def)
  have "(1::nat) = (if errors s' = [] then 0 else 1)"
    by (rule exit_code_by_blocking_findings [of "CONFIG False" constructor
          "project ?p (audit_report [])" ?p, THEN conjunct2, THEN conjunct1, rule_format,
          OF rt [unfolded r]])
  then have "errors s' \<noteq> []"
    by (cases "errors s' = []") simp_all
  with rt r have 3: "\<exists>s'. run_try (CONFIG False) (project ?p (audit_report [])) constructor
      = (Inr 1, s') \<and> errors s' \<noteq> []"
    by blast
  have t: "isl (fst (run_try (CONFIG False)
      (project [missing_entry ''left-pad'' ''1.3.0''] (audit_report [])) constructor))"
    by (rule run_try_missing_entry)
  have 4: "fst (run (CONFIG False)
      (project [missing_entry ''left-pad'' ''1.3.0''] (audit_report [])) constructor) = 0"
    using exit_code_by_blocking_findings [of "CONFIG False" constructor
        "project [missing_entry ''left-pad'' ''1.3.0''] (audit_report [])" "[]",
        THEN conjunct2, THEN conjunct2, THEN conjunct1, rule_format, OF t]
    by (simp add: CONFIG_def)
  from env(1) hp hm audit 1 2 3 t 4 show ?thesis
    by (simp add: list_all_iff list_ex_iff)
qed

text \<open>
  C1 as stated has exit code 1 for every report with a patch entry, and exit code 1
  whenever there is a blocking finding: on a report with a patch entry followed by an
  entry without \<open>current\<close>, the run of the shipped configuration holds the blocking
  finding of the patch entry and returns exit code 0.
\<close>

theorem patch_entry_exit_0_counterexample:
  "map_option fst (entry_finding (outdated_entry ''b'' ''1.2.3'' ''1.2.4'')) = Some Patch
   \<and> fst (main (CONFIG False)
        (project [outdated_entry ''b'' ''1.2.3'' ''1.2.4'', missing_entry ''left-pad'' ''1.3.0'']
           (audit_report []))) = 0
   \<and> errors (snd (main (CONFIG False)
        (project [outdated_entry ''b'' ''1.2.3'' ''1.2.4'', missing_entry ''left-pad'' ''1.3.0'']
           (audit_report [])))) \<noteq> []"
proof -
  let ?cfg = "CONFIG False"
  let ?b = "outdated_entry ''b'' ''1.2.3'' ''1.2.4''"
  let ?m = "missing_entry ''left-pad'' ''1.3.0''"
  let ?env = "project [?b, ?m] (audit_report [])"
  let ?s1 = "log_message ?cfg (ascii ''Checking for outdated packages...'') LogInfo constructor"
  define s2 where "s2 = checkSecurityVulnerabilities ?cfg (npm_audit ?env) ?s1"
  have d: "entry_finding ?b
             = Some (Patch, entry_message (ascii ''b'') (Some (JString (ascii ''1.2.3'')))
                              (Some (JString (ascii ''1.2.4''))) Patch)"
    by (simp add: entry_finding_outdated_entry getVersionDifference_strings match_version_def
        literal_simps)
  have e: "package_json_exists ?env"
    by (simp add: project_def)
  have g: "getOutdatedPackages ?cfg (npm_outdated ?env) constructor = (Inr (JObject [?b, ?m]), ?s1)"
    by (simp add: project_def getOutdatedPackages_wellformed)
  obtain err s3 where a: "analyzeOutdatedPackages ?cfg (JObject [?b, ?m]) s2 = (Inl err, s3)"
    and s3: "errors s3 \<noteq> []"
    using analyzeOutdatedPackages_stops [OF d
        entry_finding_missing_entry [of "''left-pad''" "''1.3.0''"],
        where cfg = ?cfg and rest = "[]" and s = s2]
    by auto
  have "run_try ?cfg ?env constructor = (Inl err, s3)"
    using a unfolding s2_def by (simp add: run_try_returned [OF e g])
  then have "fst (main ?cfg ?env) = 0" "errors (snd (main ?cfg ?env)) = errors s3"
    by (simp_all add: main_def run_def CONFIG_def)
  with d s3 show ?thesis
    by simp
qed

subsection \<open>An entry without a current version\<close>

text \<open>
  C2. The analysis has no case for an entry whose \<open>current\<close> or \<open>latest\<close> is not a
  string, as \<open>npm outdated --json\<close> reports a dependency that is not installed:
  \<open>parseVersion\<close> throws on it, the loop ends there, and the entries after it get no
  finding. On the report of such an entry followed by an entry with a patch delta the
  analysis throws and adds neither a warning nor an error, where the policy gives a
  blocking finding for the second entry.
\<close>

theorem analyzeOutdatedPackages_missing_current:
  "map_option fst (entry_finding (outdated_entry ''b'' ''1.2.3'' ''1.2.4'')) = Some Patch
   \<and> policy Patch = Some Blocking
   \<and> analyzeOutdatedPackages (CONFIG True)
        (JObject [missing_entry ''left-pad'' ''1.3.0'', outdated_entry ''b'' ''1.2.3'' ''1.2.4''])
        constructor
       = (Inl (TypeError (ascii ''Cannot read properties of undefined (reading '' @ apostrophe
                          @ ascii ''match'' @ apostrophe @ ascii '')'')), constructor)"
proof -
  have d: "map_option fst (entry_finding (outdated_entry ''b'' ''1.2.3'' ''1.2.4'')) = Some Patch"
    by (simp add: entry_finding_outdated_entry getVersionDifference_strings match_version_def
        literal_simps)
  have "ascii ''wanted'' \<noteq> ascii ''current''" "ascii ''latest'' \<noteq> ascii ''current''"
    by (simp_all add: ascii_def)
  then have "analyzeEntry (CONFIG True) (missing_entry ''left-pad'' ''1.3.0'') s
      = (Inl (TypeError (ascii ''Cannot read properties of undefined (reading '' @ apostrophe
                          @ ascii ''match'' @ apostrophe @ ascii '')'')), s)" for s
    by (simp add: analyzeEntry_def missing_entry_def getVersionDifference_def)
  then have "analyzeOutdatedPackages (CONFIG True)
        (JObject [missing_entry ''left-pad'' ''1.3.0'', outdated_entry ''b'' ''1.2.3'' ''1.2.4''])
        constructor
       = (Inl (TypeError (ascii ''Cannot read properties of undefined (reading '' @ apostrophe
                          @ ascii ''match'' @ apostrophe @ ascii '')'')), constructor)"
    by (simp add: analyzeOutdatedPackages_object log_message_def CONFIG_def)
  with d show ?thesis
    by simp
qed

end
